theory Spec2Isabelle
  imports Complex_Main "HOL-Library.Sublist"
begin

chapter \<open>The Splice code generator of SpliceBlocks\<close>

text \<open>
  SpliceBlocks turns a tree of program blocks into source text of the language Splice. This
  theory embeds the generator class \<open>SpliceGenerator\<close> (\<open>splice_generator.ts\<close>) and the
  block emitters that the verified statements are about (math, logic, text, list and
  procedure blocks), and proves those statements.

  The first part holds the definitions: the JavaScript values and coercions the generator
  uses, the orders of operations, blocks and the generator's state, the core that the
  generator extends, the generator class, the emitters, and a small instance of the core
  for the concrete examples. The second part holds the theorems.
\<close>

section \<open>JavaScript values used by the generator\<close>

text \<open>
  The Splice generator is TypeScript. Strings are character lists, \<open>null\<close> and
  \<open>undefined\<close> are \<open>None\<close> of an option type, and an exception is the left
  summand of a result. The few coercions of the language that the generator relies on are
  written out here.
\<close>

datatype error =
    Error string        \<comment> \<open>\<open>throw Error(msg)\<close>\<close>
  | TypeError string    \<comment> \<open>a property read on \<open>undefined\<close>, or a value of the wrong shape\<close>

text \<open>\<open>a || d\<close> on strings: the empty string is falsy.\<close>

definition or_else :: "string \<Rightarrow> string \<Rightarrow> string" where
  "or_else a d = (if a = [] then d else a)"

text \<open>\<open>if (v)\<close> for \<open>v: string | null\<close>.\<close>

definition truthy :: "string option \<Rightarrow> bool" where
  "truthy v = (case v of None \<Rightarrow> False | Some s \<Rightarrow> s \<noteq> [])"

text \<open>String conversion of a value that is a string or \<open>null\<close>, as string
  concatenation and property keys perform it.\<close>

definition String_null :: "string option \<Rightarrow> string" where
  "String_null v = (case v of None \<Rightarrow> ''null'' | Some s \<Rightarrow> s)"

text \<open>\<open>Array.prototype.join\<close>.\<close>

fun join :: "string list \<Rightarrow> string \<Rightarrow> string" where
  "join [] sep = []"
| "join [x] sep = x"
| "join (x # y # ys) sep = x @ sep @ join (y # ys) sep"

text \<open>String conversion of an integral number. JavaScript prints plain decimal digits
  for integers below \<open>10^21\<close>, which is the range this function is used in (the index
  deltas of \<open>getAdjusted\<close> are \<open>0\<close> and \<open>1\<close>, less one in a one-based workspace).\<close>

fun digits :: "nat \<Rightarrow> string" where
  "digits n = (if n < 10 then [''0123456789'' ! n] else digits (n div 10) @ [''0123456789'' ! (n mod 10)])"

definition Number_toString :: "int \<Rightarrow> string" where
  "Number_toString i = (if i < 0 then CHR ''-'' # digits (nat (- i)) else digits (nat i))"

text \<open>\<open>String.prototype.toLowerCase\<close> on the ASCII letters (its only use is on the
  operator names \<open>SIN\<close>, \<open>COS\<close> and \<open>TAN\<close>).\<close>

definition toLowerChar :: "char \<Rightarrow> char" where
  "toLowerChar c =
     (let n = (of_char c :: nat) in if 65 \<le> n \<and> n \<le> 90 then char_of (n + 32) else c)"

definition toLowerCase :: "string \<Rightarrow> string" where
  "toLowerCase s = map toLowerChar s"

subsection \<open>Property reads on object literals\<close>

text \<open>
  A read \<open>TABLE[key]\<close> on an object literal yields the value of the own key, if the
  literal has it; otherwise the value of the property of that name that every object literal
  inherits from \<open>Object.prototype\<close>, if there is one; otherwise \<open>undefined\<close>. An
  inherited value is a built-in function, and for \<open>__proto__\<close> the prototype object
  itself. The emitters use no more of such a value than its string conversion and its
  elements \<open>[0]\<close> and \<open>[1]\<close>, which are \<open>undefined\<close>; so an inherited value is
  represented by its string conversion, in the form in which V8 prints a built-in function.
\<close>

datatype 'v property = Own 'v | Inherited string | Undefined

definition Object_prototype :: "(string \<times> string) list" where
  "Object_prototype =
     [(''constructor'', ''function Object() { [native code] }''),
      (''__defineGetter__'', ''function __defineGetter__() { [native code] }''),
      (''__defineSetter__'', ''function __defineSetter__() { [native code] }''),
      (''hasOwnProperty'', ''function hasOwnProperty() { [native code] }''),
      (''__lookupGetter__'', ''function __lookupGetter__() { [native code] }''),
      (''__lookupSetter__'', ''function __lookupSetter__() { [native code] }''),
      (''isPrototypeOf'', ''function isPrototypeOf() { [native code] }''),
      (''propertyIsEnumerable'', ''function propertyIsEnumerable() { [native code] }''),
      (''toString'', ''function toString() { [native code] }''),
      (''valueOf'', ''function valueOf() { [native code] }''),
      (''__proto__'', ''[object Object]''),
      (''toLocaleString'', ''function toLocaleString() { [native code] }'')]"

definition lookup :: "(string \<times> 'v) list \<Rightarrow> string \<Rightarrow> 'v property" where
  "lookup table key =
     (case map_of table key of
        Some v \<Rightarrow> Own v
      | None \<Rightarrow>
          (case map_of Object_prototype key of
             Some s \<Rightarrow> Inherited s
           | None \<Rightarrow> Undefined))"

text \<open>String conversion of a property whose own values are strings.\<close>

definition String_property :: "string property \<Rightarrow> string" where
  "String_property v = (case v of Own s \<Rightarrow> s | Inherited s \<Rightarrow> s | Undefined \<Rightarrow> ''undefined'')"

subsection \<open>Objects used as ordered dictionaries\<close>

text \<open>
  \<open>definitions_\<close> is a plain object. An assignment \<open>d[k] = v\<close> overwrites the value of an
  existing key in place and appends a new key. \<open>Object.values\<close> enumerates the keys that
  are array indices (canonical decimal numerals below \<open>2^32 - 1\<close>) in ascending numeric
  order first, then every other key in insertion order.
\<close>

type_synonym dict = "(string \<times> string) list"

fun assign :: "dict \<Rightarrow> string \<Rightarrow> string \<Rightarrow> dict" where
  "assign [] k v = [(k, v)]"
| "assign ((k', v') # d) k v = (if k' = k then (k, v) # d else (k', v') # assign d k v)"

definition isDigit :: "char \<Rightarrow> bool" where
  "isDigit c = (c \<in> set ''0123456789'')"

fun numberOf :: "string \<Rightarrow> nat \<Rightarrow> nat" where
  "numberOf [] acc = acc"
| "numberOf (c # cs) acc = numberOf cs (10 * acc + (of_char c - 48))"

definition isArrayIndex :: "string \<Rightarrow> bool" where
  "isArrayIndex k =
     (k \<noteq> [] \<and> list_all isDigit k \<and> (hd k \<noteq> CHR ''0'' \<or> length k = 1)
      \<and> numberOf k 0 < 2 ^ 32 - 1)"

definition Object_values :: "dict \<Rightarrow> string list" where
  "Object_values d =
     map snd (sort_key (\<lambda>(k, v). numberOf k 0) (filter (\<lambda>(k, v). isArrayIndex k) d)
              @ filter (\<lambda>(k, v). \<not> isArrayIndex k) d)"

section \<open>Order of operations\<close>

text \<open>The enum \<open>Order\<close> of \<open>splice_generator.ts\<close>. Its members are numbers, two of
  them fractional; members with the same number are the same value.\<close>

type_synonym Order = rat

definition ATOMIC :: Order where "ATOMIC = 0"
definition COLLECTION :: Order where "COLLECTION = 1"
definition STRING_CONVERSION :: Order where "STRING_CONVERSION = 1"
definition MEMBER :: Order where "MEMBER = 21 / 10"
definition FUNCTION_CALL :: Order where "FUNCTION_CALL = 22 / 10"
definition EXPONENTIATION :: Order where "EXPONENTIATION = 3"
definition UNARY_SIGN :: Order where "UNARY_SIGN = 4"
definition BITWISE_NOT :: Order where "BITWISE_NOT = 4"
definition MULTIPLICATIVE :: Order where "MULTIPLICATIVE = 5"
definition DIVISION :: Order where "DIVISION = 5"
definition ADDITIVE :: Order where "ADDITIVE = 6"
definition BITWISE_SHIFT :: Order where "BITWISE_SHIFT = 7"
definition BITWISE_AND :: Order where "BITWISE_AND = 8"
definition BITWISE_XOR :: Order where "BITWISE_XOR = 9"
definition BITWISE_OR :: Order where "BITWISE_OR = 10"
definition RELATIONAL :: Order where "RELATIONAL = 11"
definition EQUALITY :: Order where "EQUALITY = 12"
definition LOGICAL_NOT :: Order where "LOGICAL_NOT = 13"
definition LOGICAL_AND :: Order where "LOGICAL_AND = 14"
definition LOGICAL_OR :: Order where "LOGICAL_OR = 15"
definition CONDITIONAL :: Order where "CONDITIONAL = 16"
definition ASSIGNMENT :: Order where "ASSIGNMENT = 17"
definition NONE :: Order where "NONE = 99"

text \<open>\<open>SpliceGenerator.ORDER_OVERRIDES\<close>: the outer-inner pairings that do not require
  parentheses.\<close>

definition ORDER_OVERRIDES :: "(Order \<times> Order) list" where
  "ORDER_OVERRIDES =
     [(FUNCTION_CALL, MEMBER),
      (FUNCTION_CALL, FUNCTION_CALL),
      (MEMBER, MEMBER),
      (MEMBER, FUNCTION_CALL),
      (LOGICAL_NOT, LOGICAL_NOT),
      (LOGICAL_AND, LOGICAL_AND),
      (LOGICAL_OR, LOGICAL_OR)]"

text \<open>The members of the enum, in the order of their declaration.\<close>

definition Order_members :: "Order list" where
  "Order_members =
     [ATOMIC, COLLECTION, STRING_CONVERSION, MEMBER, FUNCTION_CALL, EXPONENTIATION, UNARY_SIGN,
      BITWISE_NOT, MULTIPLICATIVE, DIVISION, ADDITIVE, BITWISE_SHIFT, BITWISE_AND, BITWISE_XOR,
      BITWISE_OR, RELATIONAL, EQUALITY, LOGICAL_NOT, LOGICAL_AND, LOGICAL_OR, CONDITIONAL,
      ASSIGNMENT, NONE]"

text \<open>
  Modelled from the spec: the parenthesization decision of the core's \<open>valueToCode\<close>
  (\<open>core/generator.ts\<close>, which is not among the sources). The spec describes the decision
  three times. Section 4.1 describes the override table as the pairs that need no
  parentheses \<open>even though a naive numeric comparison would suggest otherwise\<close>, such as two
  chained function calls; section 8 requires that \<open>f()()\<close> gains no parentheses and that
  \<open>a - (b - c)\<close> keeps its own; and section 4.1 gives a formula, which is
  \<open>contract_wrap\<close> below. The source agrees with the first two: the comments of
  \<open>ORDER_OVERRIDES\<close> show every listed pair as parenthesized were it not listed, and six
  of the seven pairs have equal orders and the seventh, \<open>FUNCTION_CALL\<close> around
  \<open>MEMBER\<close>, orders that differ only in their fraction. So the numeric comparison
  compares the integer classes of the two orders and asks for parentheses when the class of
  the child is not below that of the context. This is the decision of the \<open>CodeGenerator\<close>
  class of Blockly, on which the generator is built; it leaves two atoms and two orders
  \<open>NONE\<close> unwrapped, and then lets a listed pair cancel the parentheses.
\<close>

definition parensNeeded :: "Order \<Rightarrow> Order \<Rightarrow> bool" where
  "parensNeeded outerOrder innerOrder =
     (let outerOrderClass = floor outerOrder;
          innerOrderClass = floor innerOrder
      in if outerOrderClass \<le> innerOrderClass
         then if outerOrderClass = innerOrderClass \<and> (outerOrderClass = 0 \<or> outerOrderClass = 99)
              then False
              else (outerOrder, innerOrder) \<notin> set ORDER_OVERRIDES
         else False)"

text \<open>The formula of section 4.1 of the spec, word for word: \<open>wrap := not (child_order <=
  context_order OR (context_order, child_order) is a known no-wrap pair)\<close>.\<close>

definition contract_wrap :: "Order \<Rightarrow> Order \<Rightarrow> bool" where
  "contract_wrap context_order child_order =
     (\<not> (child_order \<le> context_order \<or> (context_order, child_order) \<in> set ORDER_OVERRIDES))"

section \<open>Blocks, workspaces and the generator's state\<close>

text \<open>
  A block is a node of the program tree (\<open>core/block.ts\<close> is not among the sources; the
  fields below are the ones the emitters read). A field value is given by its string
  conversion. An input has a name, a type and, when a block is plugged into it, that block.
  \<open>outputConnection\<close> is \<open>None\<close> for a block without an output connection and
  \<open>Some t\<close> for one with an output connection, where \<open>t\<close> tells whether the connection
  has a \<open>targetConnection\<close>. \<open>options\<close> stands for \<open>block.workspace.options\<close>.
\<close>

datatype inputTypes = VALUE | STATEMENT | DUMMY

record Options =
  oneBasedIndex :: bool

datatype Block = Block
  (type': string)
  (options: Options)
  (fieldValues: "(string \<times> string) list")
  (inputList: "(string \<times> inputTypes \<times> Block option) list")
  (nextBlock: "Block option")
  (outputConnection: "bool option")
  (commentText: "string option")
  (getVars: "string list")

definition getFieldValue :: "Block \<Rightarrow> string \<Rightarrow> string option" where
  "getFieldValue block name = map_of (fieldValues block) name"

definition getInput :: "Block \<Rightarrow> string \<Rightarrow> (string \<times> inputTypes \<times> Block option) option" where
  "getInput block name = find (\<lambda>(n, t, c). n = name) (inputList block)"

definition getInputTargetBlock :: "Block \<Rightarrow> string \<Rightarrow> Block option" where
  "getInputTargetBlock block name =
     (case getInput block name of None \<Rightarrow> None | Some (n, t, c) \<Rightarrow> c)"

record VariableModel =
  getId :: string
  getName :: string

record Workspace =
  workspace_options :: Options
  getVariableMap :: "VariableModel list"
  getAllBlocks :: "Block list"

text \<open>
  The state of a \<open>SpliceGenerator\<close>: the fields of the class and of its base class
  \<open>CodeGenerator\<close> that the methods below read or write. The name database is an object
  of the core class \<open>Names\<close>, which is not among the sources: its type is the parameter
  \<open>'n\<close>. Isabelle reserves names that end in an underscore, so \<open>definitions_\<close>,
  \<open>functionNames_\<close>, \<open>nameDB_\<close>, \<open>scrub_\<close> and \<open>provideFunction_\<close> are written
  without it here.
\<close>

record 'n SpliceGenerator =
  definitions :: dict
  functionNames :: dict
  nameDB :: "'n option"
  isInitialized :: bool
  PASS :: string
  INDENT :: string
  COMMENT_WRAP :: int
  STATEMENT_PREFIX :: "string option"
  STATEMENT_SUFFIX :: "string option"
  RESERVED_WORDS :: string
  FUNCTION_NAME_PLACEHOLDER :: string

text \<open>A method of the generator runs on a state and either throws or returns a value
  and the state it leaves.\<close>

type_synonym ('a, 'n) gen = "'n SpliceGenerator \<Rightarrow> error + ('a \<times> 'n SpliceGenerator)"

definition ret :: "'a \<Rightarrow> ('a, 'n) gen" where
  "ret x = (\<lambda>g. Inr (x, g))"

definition throw :: "error \<Rightarrow> ('a, 'n) gen" where
  "throw e = (\<lambda>g. Inl e)"

definition bnd :: "('a, 'n) gen \<Rightarrow> ('a \<Rightarrow> ('b, 'n) gen) \<Rightarrow> ('b, 'n) gen" where
  "bnd m f = (\<lambda>g. case m g of Inl e \<Rightarrow> Inl e | Inr (x, g') \<Rightarrow> f x g')"

definition read :: "('n SpliceGenerator \<Rightarrow> 'a) \<Rightarrow> ('a, 'n) gen" where
  "read field = (\<lambda>g. Inr (field g, g))"

definition modify :: "('n SpliceGenerator \<Rightarrow> 'n SpliceGenerator) \<Rightarrow> (unit, 'n) gen" where
  "modify f = (\<lambda>g. Inr ((), f g))"

section \<open>The core the generator is built on\<close>

text \<open>
  \<open>SpliceGenerator\<close> extends the core class \<open>CodeGenerator\<close> and calls the core modules
  \<open>Names\<close>, \<open>Variables\<close> and \<open>utils/string\<close>. None of them is among the sources, so
  the methods of theirs that the Splice generator calls are parameters of the model. The
  result of \<open>blockToCode\<close> is a string for a statement block and a pair of code and order
  for a value block.
\<close>

datatype code = Str string | Tuple string Order

record 'n Core =
  blockToCode :: "Block \<Rightarrow> (code, 'n) gen"
  provideFunction :: "string \<Rightarrow> string list \<Rightarrow> (string, 'n) gen"
  getVariableName :: "string \<Rightarrow> (string, 'n) gen"
  getProcedureName :: "string option \<Rightarrow> (string, 'n) gen"
  injectId :: "string \<Rightarrow> Block \<Rightarrow> string"
  prefixLines :: "string \<Rightarrow> string \<Rightarrow> string"
  stringUtils_wrap :: "string \<Rightarrow> int \<Rightarrow> string"
  Array_toString :: "string \<Rightarrow> Order \<Rightarrow> string"
  CodeGenerator_init :: "Workspace \<Rightarrow> (unit, 'n) gen"
  CodeGenerator_finish :: "string \<Rightarrow> (string, 'n) gen"
  Names_new :: "string \<Rightarrow> 'n"
  Names_reset :: "'n \<Rightarrow> 'n"
  Names_setVariableMap :: "VariableModel list \<Rightarrow> 'n \<Rightarrow> 'n"
  Names_populateVariables :: "Workspace \<Rightarrow> 'n \<Rightarrow> 'n"
  Names_populateProcedures :: "Workspace \<Rightarrow> 'n \<Rightarrow> 'n"
  allUsedVarModels :: "Workspace \<Rightarrow> VariableModel list"

text \<open>
  Modelled from the spec: \<open>valueToCode\<close> of the core class (section 4.3). It resolves
  the value block plugged into the slot, obtains its code and order, applies the wrap
  decision with the context order and returns the possibly parenthesized code; it returns
  the empty string if the slot is unconnected. A block used as an expression must resolve
  to a pair of code and order (section 3); a block that yields a plain string instead is a
  usage error. The spec does not say what the core does with a slot name that the block does
  not have; here such a slot counts as unconnected.
\<close>

definition valueToCode :: "'n Core \<Rightarrow> Block \<Rightarrow> string \<Rightarrow> Order \<Rightarrow> (string, 'n) gen" where
  "valueToCode core block name outerOrder =
     (case getInputTargetBlock block name of
        None \<Rightarrow> ret ''''
      | Some targetBlock \<Rightarrow>
          bnd (blockToCode core targetBlock) (\<lambda>tuple.
            case tuple of
              Str s \<Rightarrow> throw (TypeError ''Expecting tuple from value block'')
            | Tuple code innerOrder \<Rightarrow>
                ret (if parensNeeded outerOrder innerOrder then ''('' @ code @ '')'' else code)))"

text \<open>
  Modelled from the spec: \<open>statementToCode\<close> of the core class (section 4.3). It
  resolves the nested statement sequence and applies one level of indentation to the whole
  rendered text; it returns the empty string if the slot is unconnected.
\<close>

definition statementToCode :: "'n Core \<Rightarrow> Block \<Rightarrow> string \<Rightarrow> (string, 'n) gen" where
  "statementToCode core block name =
     (case getInputTargetBlock block name of
        None \<Rightarrow> ret ''''
      | Some targetBlock \<Rightarrow>
          bnd (blockToCode core targetBlock) (\<lambda>c.
            case c of
              Tuple code innerOrder \<Rightarrow> throw (TypeError ''Expecting code from statement block'')
            | Str s \<Rightarrow> bnd (read INDENT) (\<lambda>indent. ret (prefixLines core s indent))))"

text \<open>\<open>s + v\<close> for the result \<open>v\<close> of \<open>blockToCode\<close>: a string is appended as it is, a
  pair by the string conversion of arrays.\<close>

definition plus_code :: "'n Core \<Rightarrow> string \<Rightarrow> code \<Rightarrow> string" where
  "plus_code core s v = (case v of Str t \<Rightarrow> s @ t | Tuple c ord \<Rightarrow> s @ Array_toString core c ord)"

section \<open>The generator class (\<open>splice_generator.ts\<close>)\<close>

text \<open>The loop of \<open>init\<close> that declares the used variables: \<open>i\<close> counts up and
  \<open>defvars\<close> grows by one pushed line per variable.\<close>

function init_defvars ::
  "'n Core \<Rightarrow> VariableModel list \<Rightarrow> nat \<Rightarrow> string list \<Rightarrow> (string list, 'n) gen" where
  "init_defvars core variables i defvars =
     (if i < length variables
      then bnd (getVariableName core (getId (variables ! i))) (\<lambda>varName.
             init_defvars core variables (i + 1) (defvars @ [''let '' @ varName @ '' = \"\";'']))
      else ret defvars)"
  by pat_completeness auto
termination
  by (relation "measure (\<lambda>(core, variables, i, defvars). length variables - i)") auto

definition init :: "'n Core \<Rightarrow> Workspace \<Rightarrow> (unit, 'n) gen" where
  "init core workspace =
     bnd (CodeGenerator_init core workspace) (\<lambda>_.
     bnd (read nameDB) (\<lambda>db0.
     bnd (read RESERVED_WORDS) (\<lambda>reserved.
     bnd (modify (\<lambda>g. g\<lparr>nameDB :=
            Some (Names_populateProcedures core workspace
                   (Names_populateVariables core workspace
                     (Names_setVariableMap core (getVariableMap workspace)
                       (Names_reset core
                         (case db0 of None \<Rightarrow> Names_new core reserved | Some db \<Rightarrow> db)))))\<rparr>)) (\<lambda>_.
     bnd (modify (\<lambda>g. g\<lparr>PASS := INDENT g @ ''// pass\<newline>''\<rparr>)) (\<lambda>_.
     bnd (init_defvars core (allUsedVarModels core workspace) 0 []) (\<lambda>defvars.
     bnd (modify (\<lambda>g. g\<lparr>definitions := assign (definitions g) ''variables'' (join defvars ''\<newline>'')\<rparr>)) (\<lambda>_.
     modify (\<lambda>g. g\<lparr>isInitialized := True\<rparr>))))))))"

definition finish :: "'n Core \<Rightarrow> string \<Rightarrow> (string, 'n) gen" where
  "finish core code =
     bnd (read definitions) (\<lambda>d.
       let definitions = Object_values d in
       bnd (CodeGenerator_finish core code) (\<lambda>_.
       bnd (modify (\<lambda>g. g\<lparr>isInitialized := False\<rparr>)) (\<lambda>_.
       ret (join definitions ''\<newline>\<newline>'' @ ''\<newline>\<newline>'' @ code))))"

text \<open>The comment of one block, as \<open>scrub\<close> renders it.\<close>

definition commentOf :: "'n Core \<Rightarrow> int \<Rightarrow> Block \<Rightarrow> string" where
  "commentOf core commentWrap block =
     (if truthy (commentText block)
      then prefixLines core
             (stringUtils_wrap core (String_null (commentText block)) (commentWrap - 3) @ ''\<newline>'')
             ''// ''
      else '''')"

text \<open>The loop of \<open>scrub\<close> over the inputs: the comments of the blocks plugged into
  value inputs. Comments of nested statements are not collected.\<close>

fun valueComments :: "'n Core \<Rightarrow> int \<Rightarrow> (string \<times> inputTypes \<times> Block option) list \<Rightarrow> string" where
  "valueComments core commentWrap [] = ''''"
| "valueComments core commentWrap ((n, t, c) # inputs) =
     (if t = VALUE
      then (case c of
              None \<Rightarrow> valueComments core commentWrap inputs
            | Some childBlock \<Rightarrow> commentOf core commentWrap childBlock @ valueComments core commentWrap inputs)
      else valueComments core commentWrap inputs)"

text \<open>\<open>scrub_\<close>: the comments, the code of the block and the code of the blocks that
  follow it. Without a next block \<open>blockToCode\<close> is called on \<open>null\<close> and contributes
  the empty string (the terminal condition of section 4.3 of the spec).\<close>

definition scrub :: "'n Core \<Rightarrow> Block \<Rightarrow> string \<Rightarrow> bool \<Rightarrow> (string, 'n) gen" where
  "scrub core block code thisOnly =
     bnd (read COMMENT_WRAP) (\<lambda>commentWrap.
       let commentCode =
             (if outputConnection block = None \<or> outputConnection block = Some False
              then commentOf core commentWrap block @ valueComments core commentWrap (inputList block)
              else '''')
       in if thisOnly then ret (commentCode @ code)
          else (case nextBlock block of
                  None \<Rightarrow> ret (commentCode @ code)
                | Some nb \<Rightarrow> bnd (blockToCode core nb) (\<lambda>nextCode.
                    ret (plus_code core (commentCode @ code) nextCode))))"

text \<open>\<open>getAdjusted\<close>: the optional parameters are \<open>None\<close> when the caller leaves them
  out. \<open>opt_delta || 0\<close> and \<open>opt_order || Order.NONE\<close> replace a missing argument and
  also the falsy number \<open>0\<close>.\<close>

definition getAdjusted ::
  "'n Core \<Rightarrow> Block \<Rightarrow> string \<Rightarrow> int option \<Rightarrow> bool option \<Rightarrow> Order option \<Rightarrow> (string, 'n) gen" where
  "getAdjusted core block atId opt_delta opt_negate opt_order =
     (let delta0 = (case opt_delta of None \<Rightarrow> 0 | Some d \<Rightarrow> d);
          order = (case opt_order of None \<Rightarrow> NONE | Some ord \<Rightarrow> if ord = 0 then NONE else ord);
          delta = (if oneBasedIndex (options block) then delta0 - 1 else delta0)
      in bnd (valueToCode core block atId order) (\<lambda>defaultValue.
           if defaultValue \<noteq> ''''
           then
             (let negated = (if opt_negate = Some True then ''!'' @ defaultValue else defaultValue);
                  adjusted =
                    (if delta > 0 then negated @ '' + '' @ Number_toString delta
                     else if delta < 0 then negated @ '' - '' @ Number_toString (- delta)
                     else negated)
              in ret (if opt_order \<noteq> None \<and> order \<ge> ADDITIVE
                      then ''('' @ adjusted @ '')'' else adjusted))
           else ret defaultValue))"

section \<open>Math blocks\<close>

definition math_number :: "'n Core \<Rightarrow> Block \<Rightarrow> (string \<times> Order, 'n) gen" where
  "math_number core block = ret (String_null (getFieldValue block ''NUM''), ATOMIC)"

definition math_arithmetic_OPERATORS :: "(string \<times> string \<times> Order) list" where
  "math_arithmetic_OPERATORS =
     [(''ADD'', '' + '', ADDITIVE),
      (''MINUS'', '' - '', ADDITIVE),
      (''MULTIPLY'', '' * '', MULTIPLICATIVE),
      (''DIVIDE'', '' / '', MULTIPLICATIVE),
      (''POWER'', '' ** '', EXPONENTIATION)]"

text \<open>For an operator that is no property of the table \<open>tuple\<close> is \<open>undefined\<close>, and
  reading \<open>tuple[0]\<close> throws a \<open>TypeError\<close>. For an operator name that the table
  inherits, \<open>tuple\<close> is a value without elements: \<open>operator\<close> and \<open>order\<close> are
  \<open>undefined\<close>, and \<open>valueToCode\<close> of the core rejects an order that is not a number
  with a \<open>TypeError\<close>.\<close>

definition math_arithmetic :: "'n Core \<Rightarrow> Block \<Rightarrow> (string \<times> Order, 'n) gen" where
  "math_arithmetic core block =
     (case lookup math_arithmetic_OPERATORS (String_null (getFieldValue block ''OP'')) of
        Undefined \<Rightarrow> throw (TypeError ''Cannot read properties of undefined'')
      | Inherited f \<Rightarrow> throw (TypeError (''Expecting valid order from block: '' @ type' block))
      | Own (operator, order) \<Rightarrow>
          bnd (valueToCode core block ''A'' order) (\<lambda>a.
          bnd (valueToCode core block ''B'' order) (\<lambda>b.
            let argument0 = or_else a ''0'';
                argument1 = or_else b ''0'';
                code = argument0 @ operator @ argument1
            in ret (code, order))))"

definition math_single :: "'n Core \<Rightarrow> Block \<Rightarrow> (string \<times> Order, 'n) gen" where
  "math_single core block =
     (let operator = getFieldValue block ''OP'' in
      if operator = Some ''NEG'' then
        bnd (valueToCode core block ''NUM'' UNARY_SIGN) (\<lambda>a.
          let arg = or_else a ''0'';
              arg = (if take 1 arg = ''-'' then '' ('' @ arg @ '')'' else arg);
              code = ''-'' @ arg
          in ret (code, UNARY_SIGN))
      else if operator = Some ''SIN'' \<or> operator = Some ''COS'' \<or> operator = Some ''TAN'' then
        bnd (valueToCode core block ''NUM'' MULTIPLICATIVE) (\<lambda>a.
          ret (''math.'' @ toLowerCase (String_null operator) @ ''('' @ or_else a ''0'' @ '')'',
               FUNCTION_CALL))
      else if operator = Some ''ROOT'' then
        bnd (valueToCode core block ''NUM'' MULTIPLICATIVE) (\<lambda>a.
          ret (''math.sqrt('' @ or_else a ''0'' @ '')'', FUNCTION_CALL))
      else if operator = Some ''LN'' then
        bnd (valueToCode core block ''NUM'' MULTIPLICATIVE) (\<lambda>a.
          ret (''math.log('' @ or_else a ''0'' @ '')'', FUNCTION_CALL))
      else if operator = Some ''LOG10'' then
        bnd (valueToCode core block ''NUM'' MULTIPLICATIVE) (\<lambda>a.
          ret (''math.log10('' @ or_else a ''0'' @ '')'', FUNCTION_CALL))
      else if operator = Some ''ABS'' then
        bnd (valueToCode core block ''NUM'' UNARY_SIGN) (\<lambda>a.
          ret (''math.abs('' @ or_else a ''0'' @ '')'', FUNCTION_CALL))
      else if operator = Some ''EXP'' then
        bnd (valueToCode core block ''NUM'' MULTIPLICATIVE) (\<lambda>a.
          ret (''math.exp('' @ or_else a ''0'' @ '')'', FUNCTION_CALL))
      else if operator = Some ''POW10'' then
        bnd (valueToCode core block ''NUM'' MULTIPLICATIVE) (\<lambda>a.
          ret (''math.pow(10, '' @ or_else a ''0'' @ '')'', FUNCTION_CALL))
      else throw (Error (''Unknown math operator: '' @ String_null operator)))"

section \<open>Logic blocks\<close>

definition logic_compare_OPERATORS :: "(string \<times> string) list" where
  "logic_compare_OPERATORS =
     [(''EQ'', ''==''), (''NEQ'', ''!=''), (''LT'', ''<''), (''LTE'', ''<=''),
      (''GT'', ''>''), (''GTE'', ''>='')]"

definition logic_compare :: "'n Core \<Rightarrow> Block \<Rightarrow> (string \<times> Order, 'n) gen" where
  "logic_compare core block =
     (let operator = lookup logic_compare_OPERATORS (String_null (getFieldValue block ''OP''));
          order = RELATIONAL
      in bnd (valueToCode core block ''A'' order) (\<lambda>a.
         bnd (valueToCode core block ''B'' order) (\<lambda>b.
           let argument0 = or_else a ''0'';
               argument1 = or_else b ''0'';
               code = argument0 @ '' '' @ String_property operator @ '' '' @ argument1
           in ret (code, order))))"

definition logic_operation :: "'n Core \<Rightarrow> Block \<Rightarrow> (string \<times> Order, 'n) gen" where
  "logic_operation core block =
     (let operator = (if getFieldValue block ''OP'' = Some ''AND'' then ''&&'' else ''||'');
          order = (if operator = ''&&'' then LOGICAL_AND else LOGICAL_OR)
      in bnd (valueToCode core block ''A'' order) (\<lambda>a.
         bnd (valueToCode core block ''B'' order) (\<lambda>b.
           let (argument0, argument1) =
                 (if a = '''' \<and> b = '''' then (''false'', ''false'')
                  else (let defaultArgument = (if operator = ''&&'' then ''true'' else ''false'')
                        in (if a = '''' then defaultArgument else a,
                            if b = '''' then defaultArgument else b)));
               code = argument0 @ '' '' @ operator @ '' '' @ argument1
           in ret (code, order))))"

definition logic_boolean :: "'n Core \<Rightarrow> Block \<Rightarrow> (string \<times> Order, 'n) gen" where
  "logic_boolean core block =
     (let code = (if getFieldValue block ''BOOL'' = Some ''TRUE'' then ''true'' else ''false'')
      in ret (code, ATOMIC))"

section \<open>Text blocks\<close>

definition text_indexOf :: "'n Core \<Rightarrow> Block \<Rightarrow> (string \<times> Order, 'n) gen" where
  "text_indexOf core block =
     (let operator = (if getFieldValue block ''END'' = Some ''FIRST'' then ''indexOf'' else ''lastIndexOf'')
      in bnd (valueToCode core block ''FIND'' NONE) (\<lambda>f.
         bnd (valueToCode core block ''VALUE'' NONE) (\<lambda>v.
           let substring = or_else f ''\"\"'';
               text = or_else v ''\"\"'';
               code = text @ ''.'' @ operator @ ''('' @ substring @ '')''
           in if oneBasedIndex (options block) then ret (code @ '' + 1'', ADDITIVE)
              else ret (code, FUNCTION_CALL))))"

definition text_charAt :: "'n Core \<Rightarrow> Block \<Rightarrow> (string \<times> Order, 'n) gen" where
  "text_charAt core block =
     (let where' = (if truthy (getFieldValue block ''WHERE'')
                   then String_null (getFieldValue block ''WHERE'') else ''FROM_START'');
          textOrder = (if where' = ''RANDOM'' then NONE else NONE)
      in bnd (valueToCode core block ''VALUE'' textOrder) (\<lambda>v.
           let text = or_else v ''\"\"'' in
           if where' = ''FROM_START'' then
             bnd (getAdjusted core block ''AT'' None None None) (\<lambda>at'.
               ret (text @ ''['' @ at' @ '']'', MEMBER))
           else if where' = ''FROM_END'' then
             bnd (getAdjusted core block ''AT'' (Some 1) (Some True) None) (\<lambda>at'.
               ret (text @ ''['' @ at' @ '']'', MEMBER))
           else if where' = ''FIRST'' then ret (text @ ''['' @ ''0'' @ '']'', MEMBER)
           else if where' = ''LAST'' then ret (text @ ''['' @ ''-1'' @ '']'', MEMBER)
           else if where' = ''RANDOM'' then
             bnd (read FUNCTION_NAME_PLACEHOLDER) (\<lambda>placeholder.
             bnd (provideFunction core ''text_random_letter''
                    [''function '' @ placeholder @ ''(text) {'',
                     ''  const length = text.length;'',
                     ''  const position = Math.floor(Math.random() * length);'',
                     ''  return text[position];'',
                     ''}'']) (\<lambda>functionName.
               ret (functionName @ ''('' @ text @ '')'', FUNCTION_CALL)))
           else throw (Error ''Unhandled option (text_charAt).'')))"

definition text_trim_OPERATORS :: "(string \<times> string) list" where
  "text_trim_OPERATORS =
     [(''LEFT'', ''.trimStart()''), (''RIGHT'', ''.trimEnd()''), (''BOTH'', ''.trim()'')]"

definition text_trim :: "'n Core \<Rightarrow> Block \<Rightarrow> (string \<times> Order, 'n) gen" where
  "text_trim core block =
     (let operator = lookup text_trim_OPERATORS (String_null (getFieldValue block ''MODE''))
      in bnd (valueToCode core block ''TEXT'' NONE) (\<lambda>t.
           let text = or_else t ''\"\"''
           in ret (text @ String_property operator, FUNCTION_CALL)))"

section \<open>List blocks\<close>

text \<open>The two helper functions of \<open>lists_indexOf\<close>, as the lines it passes to
  \<open>provideFunction_\<close>; the argument stands for \<open>generator.FUNCTION_NAME_PLACEHOLDER_\<close>.\<close>

definition lists_indexOf_helper :: "string \<Rightarrow> string list" where
  "lists_indexOf_helper placeholder =
     [''func '' @ placeholder @ ''(list, item) {'',
      ''  let i = 0;'',
      ''  while (i < len(list)) {'',
      ''    if (list[i] == item) {'',
      ''      return i;'',
      ''    }'',
      ''    i = i + 1;'',
      ''  }'',
      ''  return -1;'',
      ''}'']"

definition lists_lastIndexOf_helper :: "string \<Rightarrow> string list" where
  "lists_lastIndexOf_helper placeholder =
     [''func '' @ placeholder @ ''(list, item) {'',
      ''  let i = len(list) - 1;'',
      ''  while (i >= 0) {'',
      ''    if (list[i] == item) {'',
      ''      return i;'',
      ''    }'',
      ''    i = i - 1;'',
      ''  }'',
      ''  return -1;'',
      ''}'']"

definition lists_indexOf :: "'n Core \<Rightarrow> Block \<Rightarrow> (string \<times> Order, 'n) gen" where
  "lists_indexOf core block =
     (let isFirst = (getFieldValue block ''END'' = Some ''FIRST'') in
      bnd (read FUNCTION_NAME_PLACEHOLDER) (\<lambda>placeholder.
      bnd (provideFunction core
             (if isFirst then ''lists_indexOf'' else ''lists_lastIndexOf'')
             (if isFirst then lists_indexOf_helper placeholder
              else lists_lastIndexOf_helper placeholder)) (\<lambda>functionName.
      bnd (valueToCode core block ''FIND'' NONE) (\<lambda>f.
      bnd (valueToCode core block ''VALUE'' NONE) (\<lambda>v.
        let item = or_else f ''null'';
            list = or_else v ''[]'';
            code = functionName @ ''('' @ list @ '', '' @ item @ '')'';
            code = (if oneBasedIndex (options block) then code @ '' + 1'' else code)
        in ret (code, FUNCTION_CALL))))))"

definition lists_getIndex :: "'n Core \<Rightarrow> Block \<Rightarrow> (string \<times> Order, 'n) gen" where
  "lists_getIndex core block =
     bnd (valueToCode core block ''VALUE'' MEMBER) (\<lambda>v.
     bnd (getAdjusted core block ''AT'' None None None) (\<lambda>at'.
       let list = or_else v ''[]'';
           code = list @ ''['' @ at' @ '']''
       in ret (code, MEMBER)))"

definition lists_setIndex :: "'n Core \<Rightarrow> Block \<Rightarrow> (string, 'n) gen" where
  "lists_setIndex core block =
     bnd (valueToCode core block ''LIST'' MEMBER) (\<lambda>l.
     bnd (getAdjusted core block ''AT'' None None None) (\<lambda>at'.
     bnd (valueToCode core block ''TO'' ASSIGNMENT) (\<lambda>t.
       let list = or_else l ''[]'';
           value = or_else t ''null''
       in ret (list @ ''['' @ at' @ ''] = '' @ value @ '';\<newline>''))))"

section \<open>Procedure blocks\<close>

text \<open>The loop \<open>args[i] = generator.getVariableName(variables[i])\<close>: the names of the
  variables, requested from the generator one after the other.\<close>

fun getVariableNames :: "'n Core \<Rightarrow> string list \<Rightarrow> (string list, 'n) gen" where
  "getVariableNames core [] = ret []"
| "getVariableNames core (v # variables) =
     bnd (getVariableName core v) (\<lambda>arg.
     bnd (getVariableNames core variables) (\<lambda>args. ret (arg # args)))"

text \<open>The keys under which the emitters of the sources register their helper functions in
  the Definitions Table: the first argument of every call of \<open>provideFunction_\<close> in
  \<open>text.ts\<close> (the text and the list blocks).\<close>

definition helper_keys :: "string list" where
  "helper_keys =
     [''text_random_letter'', ''text_toTitleCase'', ''text_prompt'', ''text_count'',
      ''lists_repeat'', ''lists_indexOf'', ''lists_lastIndexOf'', ''lists_getSublist'',
      ''lists_split'', ''lists_join'', ''lists_sort'', ''lists_reverse'']"

text \<open>The first lines of both procedure emitters: \<open>xfix1\<close>, the statement prefix and
  suffix of the generator with the block's id injected, indented when there is any.\<close>

definition xfix1 :: "'n Core \<Rightarrow> Block \<Rightarrow> 'n SpliceGenerator \<Rightarrow> string" where
  "xfix1 core block generator =
     (let xfix1 = '''';
          xfix1 = (if truthy (STATEMENT_PREFIX generator)
                   then xfix1 @ injectId core (String_null (STATEMENT_PREFIX generator)) block
                   else xfix1);
          xfix1 = (if truthy (STATEMENT_SUFFIX generator)
                   then xfix1 @ injectId core (String_null (STATEMENT_SUFFIX generator)) block
                   else xfix1)
      in if xfix1 \<noteq> '''' then prefixLines core xfix1 (INDENT generator) else xfix1)"

text \<open>Both emitters return \<open>null\<close>: the value of the model is the unit.\<close>

definition procedures_defreturn :: "'n Core \<Rightarrow> Block \<Rightarrow> (unit, 'n) gen" where
  "procedures_defreturn core block =
     bnd (getProcedureName core (getFieldValue block ''NAME'')) (\<lambda>funcName.
     bnd (read (xfix1 core block)) (\<lambda>xfix1.
     bnd (statementToCode core block ''STACK'') (\<lambda>branch.
     bnd (valueToCode core block ''RETURN'' NONE) (\<lambda>r.
       let returnValue = or_else r '''';
           xfix2 =
             (if branch \<noteq> '''' \<and> returnValue \<noteq> '''' then xfix1 @ ''return '' @ returnValue @ '';\<newline>''
              else if returnValue \<noteq> '''' then xfix1 @ ''return '' @ returnValue @ '';\<newline>''
              else if branch \<noteq> '''' then xfix1 @ ''return;\<newline>''
              else xfix1 @ ''return;\<newline>'')
       in
     bnd (getVariableNames core (getVars block)) (\<lambda>args.
     bnd (scrub core block
            (''func '' @ funcName @ ''('' @ join args '', '' @ '') {\<newline>'' @ branch @ xfix2 @ ''}'')
            False) (\<lambda>code.
     bnd (modify (\<lambda>g. g\<lparr>definitions := assign (definitions g) (''%'' @ funcName) code\<rparr>)) (\<lambda>_.
     ret ())))))))"

definition procedures_defnoreturn :: "'n Core \<Rightarrow> Block \<Rightarrow> (unit, 'n) gen" where
  "procedures_defnoreturn core block =
     bnd (getProcedureName core (getFieldValue block ''NAME'')) (\<lambda>funcName.
     bnd (read (xfix1 core block)) (\<lambda>xfix1.
     bnd (statementToCode core block ''STACK'') (\<lambda>branch.
     bnd (getVariableNames core (getVars block)) (\<lambda>args.
     bnd (scrub core block
            (''func '' @ funcName @ ''('' @ join args '', '' @ '') {\<newline>'' @ branch @ xfix1 @ ''}\<newline>'')
            False) (\<lambda>code.
     bnd (modify (\<lambda>g. g\<lparr>definitions := assign (definitions g) (''%'' @ funcName) code\<rparr>)) (\<lambda>_.
     ret ()))))))"


section \<open>Loop blocks\<close>

definition controls_flow_statements :: "'n Core \<Rightarrow> Block \<Rightarrow> (string, 'n) gen" where
  "controls_flow_statements core block =
     (let xfix = '''' in
      bnd (read STATEMENT_PREFIX) (\<lambda>prefix.
        if truthy prefix
        then ret (injectId core (String_null prefix) block @ xfix
                  @ String_null (getFieldValue block ''FLOW'') @ '';\<newline>'')
        else ret (xfix @ String_null (getFieldValue block ''FLOW'') @ '';\<newline>'')))"

section \<open>A small instance of the core\<close>

text \<open>
  The concrete examples below need an instance of the core's operations. This one keeps the
  name database as the list of the names it was populated with, names a variable and a
  procedure by its own identifier, and resolves the blocks \<open>math_number\<close> and
  \<open>logic_boolean\<close> (value blocks) and \<open>controls_flow_statements\<close> (a statement block)
  through the emitters above.
\<close>

text \<open>\<open>prefixLines\<close>: the prefix before the text and after every line break but a final
  one.\<close>

fun afterBreaks :: "string \<Rightarrow> string \<Rightarrow> string" where
  "afterBreaks pre [] = []"
| "afterBreaks pre [c] = [c]"
| "afterBreaks pre (c # d # cs) =
     (if c = CHR ''\<newline>'' then c # pre @ afterBreaks pre (d # cs)
      else c # afterBreaks pre (d # cs))"

definition example_prefixLines :: "string \<Rightarrow> string \<Rightarrow> string" where
  "example_prefixLines text pre = pre @ afterBreaks pre text"

text \<open>The rendering of a helper: its name is the key itself, and the name replaces the
  placeholder where a line of the template starts with \<open>func\<close> and the placeholder.\<close>

definition example_render :: "string \<Rightarrow> string \<Rightarrow> string \<Rightarrow> string" where
  "example_render placeholder functionName line =
     (if take (5 + length placeholder) line = ''func '' @ placeholder
      then ''func '' @ functionName @ drop (5 + length placeholder) line
      else line)"

definition example_provideFunction :: "string \<Rightarrow> string list \<Rightarrow> (string, string list) gen" where
  "example_provideFunction desiredName lines =
     bnd (read functionNames) (\<lambda>names.
       case map_of names desiredName of
         Some functionName \<Rightarrow> ret functionName
       | None \<Rightarrow>
           bnd (read FUNCTION_NAME_PLACEHOLDER) (\<lambda>placeholder.
           bnd (modify (\<lambda>g. g\<lparr>
                  functionNames := assign (functionNames g) desiredName desiredName,
                  definitions := assign (definitions g) desiredName
                    (join (map (example_render placeholder desiredName) lines) ''\<newline>'')\<rparr>)) (\<lambda>_.
           ret desiredName)))"

definition leaf_core :: "string list Core" where
  "leaf_core =
     \<lparr> blockToCode = (\<lambda>block. throw (Error ''does not know how to generate code for this block'')),
       provideFunction = example_provideFunction,
       getVariableName = (\<lambda>v. ret v),
       getProcedureName = (\<lambda>n. ret (String_null n)),
       injectId = (\<lambda>msg block. msg),
       prefixLines = example_prefixLines,
       stringUtils_wrap = (\<lambda>text limit. text),
       Array_toString = (\<lambda>c ord. c),
       CodeGenerator_init = (\<lambda>workspace. modify (\<lambda>g. g\<lparr>definitions := [], functionNames := []\<rparr>)),
       CodeGenerator_finish = (\<lambda>code. ret code),
       Names_new = (\<lambda>reserved. []),
       Names_reset = (\<lambda>db. []),
       Names_setVariableMap = (\<lambda>vars db. db),
       Names_populateVariables = (\<lambda>workspace db. db @ map getName (getVariableMap workspace)),
       Names_populateProcedures = (\<lambda>workspace db. db),
       allUsedVarModels =
         (\<lambda>workspace. filter (\<lambda>v. \<exists>block \<in> set (getAllBlocks workspace). getId v \<in> set (getVars block))
                        (getVariableMap workspace)) \<rparr>"

definition example_core :: "string list Core" where
  "example_core =
     leaf_core \<lparr> blockToCode := (\<lambda>block.
       if type' block = ''math_number''
       then bnd (math_number leaf_core block) (\<lambda>(c, ord). ret (Tuple c ord))
       else if type' block = ''logic_boolean''
       then bnd (logic_boolean leaf_core block) (\<lambda>(c, ord). ret (Tuple c ord))
       else if type' block = ''controls_flow_statements''
       then bnd (controls_flow_statements leaf_core block) (\<lambda>line.
            bnd (scrub leaf_core block line False) (\<lambda>c. ret (Str c)))
       else throw (Error ''does not know how to generate code for this block'')) \<rparr>"

text \<open>A second instance resolves, in addition, arithmetic and logic blocks whose own
  operands are blocks of the first instance.\<close>

definition nested_core :: "string list Core" where
  "nested_core =
     example_core \<lparr> blockToCode := (\<lambda>block.
       if type' block = ''math_arithmetic''
       then bnd (math_arithmetic example_core block) (\<lambda>(c, ord). ret (Tuple c ord))
       else if type' block = ''math_single''
       then bnd (math_single example_core block) (\<lambda>(c, ord). ret (Tuple c ord))
       else if type' block = ''logic_operation''
       then bnd (logic_operation example_core block) (\<lambda>(c, ord). ret (Tuple c ord))
       else blockToCode example_core block) \<rparr>"

definition example_generator :: "string list SpliceGenerator" where
  "example_generator =
     \<lparr> definitions = [],
       functionNames = [],
       nameDB = Some [],
       isInitialized = True,
       PASS = ''  // pass\<newline>'',
       INDENT = ''  '',
       COMMENT_WRAP = 60,
       STATEMENT_PREFIX = None,
       STATEMENT_SUFFIX = None,
       RESERVED_WORDS = ''math,random,Number'',
       FUNCTION_NAME_PLACEHOLDER = ''{leCUI8hutHZI4480Dc}'' \<rparr>"

text \<open>A block with the given type, fields and inputs, no next block, no comment and no
  variables, in a workspace with the given index base.\<close>

definition example_block ::
  "string \<Rightarrow> bool \<Rightarrow> (string \<times> string) list \<Rightarrow> (string \<times> inputTypes \<times> Block option) list \<Rightarrow> Block" where
  "example_block t oneBased fieldList inputs =
     Block t \<lparr>oneBasedIndex = oneBased\<rparr> fieldList inputs None None None []"

definition number_block :: "string \<Rightarrow> Block" where
  "number_block n =
     Block ''math_number'' \<lparr>oneBasedIndex = False\<rparr> [(''NUM'', n)] [] None (Some True) None []"

text \<open>The difference of two blocks, the negation of a block and the conjunction of two
  blocks, each plugged into a slot of another block.\<close>

definition minus_block :: "Block \<Rightarrow> Block \<Rightarrow> Block" where
  "minus_block a b =
     Block ''math_arithmetic'' \<lparr>oneBasedIndex = False\<rparr> [(''OP'', ''MINUS'')]
       [(''A'', VALUE, Some a), (''B'', VALUE, Some b)] None (Some True) None []"

definition neg_block :: "Block \<Rightarrow> Block" where
  "neg_block a =
     Block ''math_single'' \<lparr>oneBasedIndex = False\<rparr> [(''OP'', ''NEG'')]
       [(''NUM'', VALUE, Some a)] None (Some True) None []"

definition and_block :: "Block \<Rightarrow> Block \<Rightarrow> Block" where
  "and_block a b =
     Block ''logic_operation'' \<lparr>oneBasedIndex = False\<rparr> [(''OP'', ''AND'')]
       [(''A'', VALUE, Some a), (''B'', VALUE, Some b)] None (Some True) None []"

definition break_block :: Block where
  "break_block =
     Block ''controls_flow_statements'' \<lparr>oneBasedIndex = False\<rparr> [(''FLOW'', ''break'')] []
       None None None []"

definition boolean_block :: "string \<Rightarrow> Block" where
  "boolean_block b =
     Block ''logic_boolean'' \<lparr>oneBasedIndex = False\<rparr> [(''BOOL'', b)] [] None (Some True) None []"

text \<open>The two definition blocks of a procedure \<open>f\<close> with the parameters \<open>x\<close> and
  \<open>y\<close>: the one with a return value has the slots \<open>STACK\<close> and \<open>RETURN\<close>, the one
  without has the slot \<open>STACK\<close> only. The arguments are the blocks plugged into the
  slots, if any.\<close>

definition defreturn_block :: "Block option \<Rightarrow> Block option \<Rightarrow> Block" where
  "defreturn_block stack returnValue =
     Block ''procedures_defreturn'' \<lparr>oneBasedIndex = False\<rparr> [(''NAME'', ''f'')]
       [(''STACK'', STATEMENT, stack), (''RETURN'', VALUE, returnValue)]
       None None None [''x'', ''y'']"

definition defnoreturn_block :: "Block option \<Rightarrow> Block" where
  "defnoreturn_block stack =
     Block ''procedures_defnoreturn'' \<lparr>oneBasedIndex = False\<rparr> [(''NAME'', ''f'')]
       [(''STACK'', STATEMENT, stack)]
       None None None [''x'', ''y'']"

text \<open>A workspace with three variables, of which the blocks use the first and the
  third.\<close>

definition example_workspace :: Workspace where
  "example_workspace =
     \<lparr> workspace_options = \<lparr>oneBasedIndex = False\<rparr>,
       getVariableMap =
         [\<lparr>getId = ''a'', getName = ''alpha''\<rparr>, \<lparr>getId = ''b'', getName = ''beta''\<rparr>,
          \<lparr>getId = ''c'', getName = ''gamma''\<rparr>],
       getAllBlocks =
         [Block ''variables_set'' \<lparr>oneBasedIndex = False\<rparr> [(''VAR'', ''c'')]
            [(''VALUE'', VALUE, None)] None None None [''c''],
          Block ''variables_get'' \<lparr>oneBasedIndex = False\<rparr> [(''VAR'', ''a'')] []
            None (Some False) None [''a'']] \<rparr>"

chapter \<open>Theorems\<close>

section \<open>Running a method\<close>

lemmas Order_defs =
  ATOMIC_def COLLECTION_def STRING_CONVERSION_def MEMBER_def FUNCTION_CALL_def
  EXPONENTIATION_def UNARY_SIGN_def BITWISE_NOT_def MULTIPLICATIVE_def DIVISION_def
  ADDITIVE_def BITWISE_SHIFT_def BITWISE_AND_def BITWISE_XOR_def BITWISE_OR_def
  RELATIONAL_def EQUALITY_def LOGICAL_NOT_def LOGICAL_AND_def LOGICAL_OR_def
  CONDITIONAL_def ASSIGNMENT_def NONE_def

text \<open>The classes of the two fractional orders.\<close>

lemma floor_MEMBER: "floor (21 / 10 :: rat) = 2"
  by (simp add: floor_eq_iff)

lemma floor_FUNCTION_CALL: "floor (11 / 5 :: rat) = 2" "floor (22 / 10 :: rat) = 2"
  by (simp_all add: floor_eq_iff)

lemmas gen_simps = bnd_def ret_def throw_def read_def modify_def

lemmas example_simps =
  example_core_def leaf_core_def example_generator_def example_block_def number_block_def
  getFieldValue_def getInput_def getInputTargetBlock_def valueToCode_def parensNeeded_def
  ORDER_OVERRIDES_def Order_defs floor_MEMBER floor_FUNCTION_CALL or_else_def String_null_def truthy_def math_number_def
  logic_boolean_def gen_simps

declare init_defvars.simps [simp del]

lemma bnd_Inr: "m g = Inr (x, g') \<Longrightarrow> bnd m f g = f x g'"
  by (simp add: bnd_def)

lemma bnd_Inl: "m g = Inl e \<Longrightarrow> bnd m f g = Inl e"
  by (simp add: bnd_def)

text \<open>An assignment to a key of a dictionary sets the value of that key and of no
  other.\<close>

lemma map_of_assign: "map_of (assign d k v) k = Some v"
  by (induction d) auto

lemma map_of_assign_other: "k' \<noteq> k \<Longrightarrow> map_of (assign d k v) k' = map_of d k'"
  by (induction d) auto

text \<open>What \<open>valueToCode\<close> returns for an unconnected slot, and for a slot whose block
  resolves to a pair of code and order.\<close>

lemma valueToCode_unconnected:
  "getInputTargetBlock block name = None \<Longrightarrow> valueToCode core block name ord g = Inr ('''', g)"
  by (simp add: valueToCode_def ret_def)

lemma valueToCode_connected:
  assumes "getInputTargetBlock block name = Some targetBlock"
      and "blockToCode core targetBlock g = Inr (Tuple code innerOrder, g')"
  shows "valueToCode core block name outerOrder g
       = Inr (if parensNeeded outerOrder innerOrder then ''('' @ code @ '')'' else code, g')"
  using assms by (simp add: valueToCode_def bnd_Inr ret_def)

text \<open>A block without a comment, whose value inputs hold no commented block and which no
  block follows, passes through \<open>scrub\<close> unchanged.\<close>

lemma valueComments_none:
  assumes "\<forall>(n, t, c) \<in> set inputs.
             \<forall>childBlock. t = VALUE \<and> c = Some childBlock \<longrightarrow> commentText childBlock = None"
  shows "valueComments core commentWrap inputs = ''''"
  using assms
  by (induction core commentWrap inputs rule: valueComments.induct)
    (auto simp: commentOf_def truthy_def split: option.splits)

lemma scrub_without_comments:
  assumes "commentText block = None"
      and "\<forall>(n, t, c) \<in> set (inputList block).
             \<forall>childBlock. t = VALUE \<and> c = Some childBlock \<longrightarrow> commentText childBlock = None"
      and "nextBlock block = None"
  shows "scrub core block code thisOnly g = Inr (code, g)"
  using assms(1,3) valueComments_none [OF assms(2), of core "COMMENT_WRAP g"]
  by (simp add: scrub_def commentOf_def truthy_def Let_def gen_simps)

section \<open>Parenthesization\<close>

text \<open>The decision on every pair of members of the enum, by evaluation: it is the
  comparison of the two orders themselves, with the exceptions of the table and of two
  atoms and two orders \<open>NONE\<close>.\<close>

lemma decision_on_members:
  "list_all (\<lambda>outerOrder. list_all (\<lambda>innerOrder.
       parensNeeded outerOrder innerOrder =
         (\<not> (innerOrder < outerOrder
              \<or> (outerOrder, innerOrder) \<in> set ORDER_OVERRIDES
              \<or> (outerOrder = ATOMIC \<and> innerOrder = ATOMIC)
              \<or> (outerOrder = NONE \<and> innerOrder = NONE))))
     Order_members) Order_members"
  by (simp add: Order_members_def parensNeeded_def ORDER_OVERRIDES_def Order_defs Let_def
      floor_MEMBER floor_FUNCTION_CALL)

text \<open>What \<open>valueToCode\<close> makes of the decision: the code of a function call plugged
  into a slot that is resolved in a function-call context comes back as it is, and the code
  of a sum or difference plugged into a slot that is resolved in an additive context comes
  back in parentheses.\<close>

lemma call_in_call_context:
  assumes "getInputTargetBlock block name = Some targetBlock"
      and "blockToCode core targetBlock g = Inr (Tuple code FUNCTION_CALL, g')"
  shows "valueToCode core block name FUNCTION_CALL g = Inr (code, g')"
  using valueToCode_connected [OF assms, of FUNCTION_CALL]
  by (simp add: parensNeeded_def ORDER_OVERRIDES_def Order_defs floor_FUNCTION_CALL)

lemma additive_in_additive_context:
  assumes "getInputTargetBlock block name = Some targetBlock"
      and "blockToCode core targetBlock g = Inr (Tuple code ADDITIVE, g')"
  shows "valueToCode core block name ADDITIVE g = Inr (''('' @ code @ '')'', g')"
  using valueToCode_connected [OF assms, of ADDITIVE]
  by (simp add: parensNeeded_def ORDER_OVERRIDES_def Order_defs)

text \<open>The formula of the spec never wraps a child of the context's own order, so that six
  of the seven listed pairs make no difference to it.\<close>

lemma contract_wrap_strict:
  "contract_wrap context_order child_order
     = (context_order < child_order \<and> (context_order, child_order) \<noteq> (MEMBER, FUNCTION_CALL))"
  by (auto simp: contract_wrap_def ORDER_OVERRIDES_def Order_defs)

text \<open>
  The claim as stated (C3) gives the formula \<open>wrap := not (child_order <= context_order OR
  (context_order, child_order) is a listed no-wrap pair)\<close> for the decision. For an additive
  child in an additive context the formula says that the child is not wrapped, and the
  decision is that it is: \<open>math_arithmetic\<close> emits \<open>1 - (2 - 3)\<close> for the difference of
  \<open>1\<close> and the difference of \<open>2\<close> and \<open>3\<close>.
\<close>

theorem equal_orders_are_wrapped:
  "\<not> contract_wrap ADDITIVE ADDITIVE
   \<and> parensNeeded ADDITIVE ADDITIVE
   \<and> math_arithmetic nested_core
       (example_block ''math_arithmetic'' False [(''OP'', ''MINUS'')]
          [(''A'', VALUE, Some (number_block ''1'')),
           (''B'', VALUE, Some (minus_block (number_block ''2'') (number_block ''3'')))])
       example_generator
     = Inr ((''1 - (2 - 3)'', ADDITIVE), example_generator)"
  by (simp add: contract_wrap_def math_arithmetic_def math_arithmetic_OPERATORS_def lookup_def
      nested_core_def minus_block_def example_simps)

text \<open>
  C3, amended: for the orders of the enum the decision is \<open>wrap := not (child_order <
  context_order OR (context_order, child_order) is a listed no-wrap pair OR both orders are
  ATOMIC OR both orders are NONE)\<close>, and the table holds exactly the seven listed pairs.
  Hence a function-call child in a function-call context is not wrapped, and an additive
  child in an additive context is wrapped.
\<close>

theorem parenthesization_contract:
  assumes "context_order \<in> set Order_members" and "child_order \<in> set Order_members"
  shows "parensNeeded context_order child_order =
           (\<not> (child_order < context_order
                \<or> (context_order, child_order) \<in> set ORDER_OVERRIDES
                \<or> (context_order = ATOMIC \<and> child_order = ATOMIC)
                \<or> (context_order = NONE \<and> child_order = NONE)))
       \<and> set ORDER_OVERRIDES =
           {(FUNCTION_CALL, MEMBER), (FUNCTION_CALL, FUNCTION_CALL), (MEMBER, MEMBER),
            (MEMBER, FUNCTION_CALL), (LOGICAL_NOT, LOGICAL_NOT), (LOGICAL_AND, LOGICAL_AND),
            (LOGICAL_OR, LOGICAL_OR)}
       \<and> length ORDER_OVERRIDES = 7
       \<and> \<not> parensNeeded FUNCTION_CALL FUNCTION_CALL
       \<and> parensNeeded ADDITIVE ADDITIVE"
proof -
  have "\<forall>outerOrder \<in> set Order_members. \<forall>innerOrder \<in> set Order_members.
       parensNeeded outerOrder innerOrder =
         (\<not> (innerOrder < outerOrder
              \<or> (outerOrder, innerOrder) \<in> set ORDER_OVERRIDES
              \<or> (outerOrder = ATOMIC \<and> innerOrder = ATOMIC)
              \<or> (outerOrder = NONE \<and> innerOrder = NONE)))"
    using decision_on_members by (simp only: list_all_iff)
  then have "parensNeeded context_order child_order =
           (\<not> (child_order < context_order
                \<or> (context_order, child_order) \<in> set ORDER_OVERRIDES
                \<or> (context_order = ATOMIC \<and> child_order = ATOMIC)
                \<or> (context_order = NONE \<and> child_order = NONE)))"
    using assms by blast
  moreover have "set ORDER_OVERRIDES =
           {(FUNCTION_CALL, MEMBER), (FUNCTION_CALL, FUNCTION_CALL), (MEMBER, MEMBER),
            (MEMBER, FUNCTION_CALL), (LOGICAL_NOT, LOGICAL_NOT), (LOGICAL_AND, LOGICAL_AND),
            (LOGICAL_OR, LOGICAL_OR)}"
    and "length ORDER_OVERRIDES = 7"
    by (simp_all add: ORDER_OVERRIDES_def)
  moreover have "\<not> parensNeeded FUNCTION_CALL FUNCTION_CALL"
    and "parensNeeded ADDITIVE ADDITIVE"
    by (simp_all add: parensNeeded_def ORDER_OVERRIDES_def Order_defs floor_FUNCTION_CALL)
  ultimately show ?thesis
    by simp
qed

theorem parenthesization_contract_witness:
  "ADDITIVE \<in> set Order_members \<and> MULTIPLICATIVE \<in> set Order_members
   \<and> LOGICAL_AND \<in> set Order_members
   \<and> parensNeeded ADDITIVE ADDITIVE
   \<and> parensNeeded MULTIPLICATIVE ADDITIVE
   \<and> \<not> parensNeeded ADDITIVE MULTIPLICATIVE
   \<and> \<not> parensNeeded LOGICAL_AND LOGICAL_AND"
  using parenthesization_contract [of ADDITIVE ADDITIVE]
    parenthesization_contract [of MULTIPLICATIVE ADDITIVE]
    parenthesization_contract [of ADDITIVE MULTIPLICATIVE]
    parenthesization_contract [of LOGICAL_AND LOGICAL_AND]
  by (simp add: Order_members_def ORDER_OVERRIDES_def Order_defs)

text \<open>The decision at work in the emitters: the operand of a negation that is itself a
  negation is wrapped by \<open>valueToCode\<close>, and a conjunction inside a conjunction, which is
  a listed pair, is not.\<close>

lemma nested_negation_and_conjunction:
  "math_single nested_core
     (example_block ''math_single'' False [(''OP'', ''NEG'')]
        [(''NUM'', VALUE, Some (neg_block (number_block ''3'')))])
     example_generator
   = Inr ((''-(-3)'', UNARY_SIGN), example_generator)
   \<and> logic_operation nested_core
     (example_block ''logic_operation'' False [(''OP'', ''AND'')]
        [(''A'', VALUE, Some (boolean_block ''TRUE'')),
         (''B'', VALUE, Some (and_block (boolean_block ''TRUE'') (boolean_block ''FALSE'')))])
     example_generator
   = Inr ((''true && true && false'', LOGICAL_AND), example_generator)"
  by (simp add: math_single_def logic_operation_def nested_core_def neg_block_def
      and_block_def boolean_block_def example_simps)

section \<open>The start and the end of a generation pass\<close>

lemma getVariableNames_length:
  "getVariableNames core vs g = Inr (names, g') \<Longrightarrow> length names = length vs"
proof (induction vs arbitrary: g names)
  case Nil
  then show ?case by (simp add: ret_def)
next
  case (Cons v vs)
  then show ?case
    by (auto simp: gen_simps split: sum.splits)
qed

text \<open>The loop of \<open>init\<close> from the index \<open>i\<close> on: it requests the names of the remaining
  variables in their order and pushes one declaration for each.\<close>

lemma init_defvars_names:
  "init_defvars core variables i defvars g =
     bnd (getVariableNames core (map getId (drop i variables)))
       (\<lambda>names. ret (defvars @ map (\<lambda>n. ''let '' @ n @ '' = \"\";'') names)) g"
proof (induction core variables i defvars arbitrary: g rule: init_defvars.induct)
  case (1 core variables i defvars)
  show ?case
  proof (cases "i < length variables")
    case True
    then have d: "drop i variables = variables ! i # drop (Suc i) variables"
      by (simp add: Cons_nth_drop_Suc)
    show ?thesis
    proof (cases "getVariableName core (getId (variables ! i)) g")
      case (Inl e)
      then show ?thesis
        using True
        by (subst init_defvars.simps) (simp add: d bnd_def)
    next
      case (Inr p)
      obtain varName g' where p: "p = (varName, g')"
        by (cases p)
      show ?thesis
        using True Inr p "1.IH" [OF True, of varName g']
        by (subst init_defvars.simps) (simp add: d gen_simps split: sum.splits)
    qed
  next
    case False
    then show ?thesis
      by (subst init_defvars.simps) (simp add: gen_simps)
  qed
qed

text \<open>
  C6: \<open>init\<close> resets the name database and populates it with the variables and the
  procedures of the workspace. It then requests the name of every variable that the
  used-variable scan reports, in the order of the scan, and stores under the key
  \<open>variables\<close> of the Definitions Table one line \<open>let <name> = "";\<close> per reported
  variable, joined by line breaks. When it returns, \<open>isInitialized\<close> is true.
\<close>

theorem init_declares_used_variables:
  assumes "CodeGenerator_init core workspace g = Inr (u, g0)"
      and "getVariableNames core (map getId (allUsedVarModels core workspace))
             (g0\<lparr>nameDB := Some (Names_populateProcedures core workspace
                     (Names_populateVariables core workspace
                       (Names_setVariableMap core (getVariableMap workspace)
                         (Names_reset core
                           (case nameDB g0 of None \<Rightarrow> Names_new core (RESERVED_WORDS g0)
                            | Some db \<Rightarrow> db))))),
                 PASS := INDENT g0 @ ''// pass\<newline>''\<rparr>)
           = Inr (names, g1)"
  shows "let variables = join (map (\<lambda>n. ''let '' @ n @ '' = \"\";'') names) ''\<newline>'';
             g' = g1\<lparr>definitions := assign (definitions g1) ''variables'' variables,
                     isInitialized := True\<rparr>
         in init core workspace g = Inr ((), g')
            \<and> map_of (definitions g') ''variables'' = Some variables
            \<and> isInitialized g'
            \<and> length names = length (allUsedVarModels core workspace)"
proof -
  have "init_defvars core (allUsedVarModels core workspace) 0 []
          (g0\<lparr>nameDB := Some (Names_populateProcedures core workspace
                     (Names_populateVariables core workspace
                       (Names_setVariableMap core (getVariableMap workspace)
                         (Names_reset core
                           (case nameDB g0 of None \<Rightarrow> Names_new core (RESERVED_WORDS g0)
                            | Some db \<Rightarrow> db))))),
                 PASS := INDENT g0 @ ''// pass\<newline>''\<rparr>)
        = Inr (map (\<lambda>n. ''let '' @ n @ '' = \"\";'') names, g1)"
    using assms(2) by (simp add: init_defvars_names bnd_Inr ret_def)
  then have "init core workspace g
      = Inr ((), g1\<lparr>definitions := assign (definitions g1) ''variables''
                        (join (map (\<lambda>n. ''let '' @ n @ '' = \"\";'') names) ''\<newline>''),
                     isInitialized := True\<rparr>)"
    using assms(1) by (simp add: init_def gen_simps)
  moreover have "length names = length (allUsedVarModels core workspace)"
    using getVariableNames_length [OF assms(2)] by simp
  ultimately show ?thesis
    by (simp add: Let_def map_of_assign)
qed

theorem init_declares_used_variables_witness:
  "init example_core example_workspace (example_generator\<lparr>isInitialized := False, nameDB := None\<rparr>)
   = Inr ((), example_generator
        \<lparr>nameDB := Some [''alpha'', ''beta'', ''gamma''],
         definitions := [(''variables'', ''let a = \"\";\<newline>let c = \"\";'')]\<rparr>)"
proof -
  let ?g = "example_generator\<lparr>isInitialized := False, nameDB := None\<rparr>"
  have 1: "CodeGenerator_init example_core example_workspace ?g = Inr ((), ?g)"
    by (simp add: example_simps)
  have u: "allUsedVarModels example_core example_workspace
      = [\<lparr>getId = ''a'', getName = ''alpha''\<rparr>, \<lparr>getId = ''c'', getName = ''gamma''\<rparr>]"
    by (simp add: example_workspace_def example_simps)
  have 2: "getVariableNames example_core (map getId (allUsedVarModels example_core example_workspace))
             (?g\<lparr>nameDB := Some (Names_populateProcedures example_core example_workspace
                     (Names_populateVariables example_core example_workspace
                       (Names_setVariableMap example_core (getVariableMap example_workspace)
                         (Names_reset example_core
                           (case nameDB ?g of None \<Rightarrow> Names_new example_core (RESERVED_WORDS ?g)
                            | Some db \<Rightarrow> db))))),
                 PASS := INDENT ?g @ ''// pass\<newline>''\<rparr>)
           = Inr ([''a'', ''c''], example_generator
               \<lparr>isInitialized := False, nameDB := Some [''alpha'', ''beta'', ''gamma'']\<rparr>)"
    unfolding u by (simp add: example_workspace_def example_simps)
  show ?thesis
    using init_declares_used_variables [OF 1 2]
    by (simp add: Let_def example_generator_def)
qed

lemma Object_values_insertion_order:
  assumes "\<forall>k \<in> fst ` set d. \<not> isArrayIndex k"
  shows "Object_values d = map snd d"
proof -
  have "filter (\<lambda>(k, v). isArrayIndex k) d = []"
    using assms by (auto simp: filter_empty_conv)
  moreover have "filter (\<lambda>(k, v). \<not> isArrayIndex k) d = d"
    using assms by (auto simp: filter_id_conv)
  ultimately show ?thesis
    by (simp add: Object_values_def)
qed

text \<open>The keys that the generator writes are not array indices.\<close>

lemma generator_keys_not_indices:
  "\<not> isArrayIndex ''variables''" "\<not> isArrayIndex (''%'' @ funcName)"
  by (simp_all add: isArrayIndex_def isDigit_def)

text \<open>
  C7: \<open>finish\<close> returns the entries of the Definitions Table in insertion order, joined
  by one blank line, then one blank line and the main code, and leaves \<open>isInitialized\<close>
  false. The order of \<open>Object.values\<close> is the insertion order for a table none of whose keys
  is an array index, which holds for the keys that the generator writes.
\<close>

theorem finish_output:
  assumes "CodeGenerator_finish core code g = Inr (r, g')"
      and "\<forall>k \<in> fst ` set (definitions g). \<not> isArrayIndex k"
  shows "finish core code g
       = Inr (join (map snd (definitions g)) ''\<newline>\<newline>'' @ ''\<newline>\<newline>'' @ code,
              g'\<lparr>isInitialized := False\<rparr>)"
  using assms(1) Object_values_insertion_order [OF assms(2)]
  by (simp add: finish_def gen_simps Let_def)

theorem finish_output_witness:
  "finish example_core ''print(a);\<newline>''
     (example_generator\<lparr>definitions :=
        [(''variables'', ''let a = \"\";''), (''%f'', ''func f() {\<newline>return;\<newline>}'')]\<rparr>)
   = Inr (''let a = \"\";\<newline>\<newline>func f() {\<newline>return;\<newline>}\<newline>\<newline>print(a);\<newline>'',
          example_generator\<lparr>definitions :=
            [(''variables'', ''let a = \"\";''), (''%f'', ''func f() {\<newline>return;\<newline>}'')],
            isInitialized := False\<rparr>)"
proof -
  let ?g = "example_generator\<lparr>definitions :=
        [(''variables'', ''let a = \"\";''), (''%f'', ''func f() {\<newline>return;\<newline>}'')]\<rparr>"
  have 1: "CodeGenerator_finish example_core ''print(a);\<newline>'' ?g = Inr (''print(a);\<newline>'', ?g)"
    by (simp add: example_simps)
  have 2: "\<forall>k \<in> fst ` set (definitions ?g). \<not> isArrayIndex k"
    by (simp add: example_generator_def isArrayIndex_def isDigit_def)
  show ?thesis
    using finish_output [OF 1 2] by (simp add: example_generator_def)
qed

section \<open>Index adjustment\<close>

text \<open>
  The conversion of the index base: for an index that resolves to the code \<open>v\<close>, with no
  delta, no negation and no order given, \<open>getAdjusted\<close> returns \<open>v - 1\<close> in a one-based
  workspace and \<open>v\<close> itself in a zero-based one.
\<close>

lemma getAdjusted_index_base:
  assumes "valueToCode core block atId NONE g = Inr (v, g')" and "v \<noteq> ''''"
  shows "getAdjusted core block atId None None None g
       = Inr (if oneBasedIndex (options block) then v @ '' - 1'' else v, g')"
  using assms by (simp add: getAdjusted_def Let_def bnd_Inr ret_def Number_toString_def)

text \<open>
  C2: in from-end mode \<open>getAdjusted\<close> should negate the index arithmetically. With the
  negate flag set it puts the logical-not operator \<open>!\<close> before the index: for the index
  \<open>3\<close> in a zero-based workspace it returns \<open>!3\<close>, and \<open>text_charAt\<close> in the mode
  \<open>FROM_END\<close> emits the subscript \<open>!3 + 1\<close>.
\<close>

theorem from_end_index_is_logical_not:
  "getAdjusted example_core
     (example_block ''text_charAt'' False [(''WHERE'', ''FROM_END'')]
        [(''VALUE'', VALUE, None), (''AT'', VALUE, Some (number_block ''3''))])
     ''AT'' None (Some True) None example_generator
   = Inr (''!3'', example_generator)
   \<and> text_charAt example_core
     (example_block ''text_charAt'' False [(''WHERE'', ''FROM_END'')]
        [(''VALUE'', VALUE, None), (''AT'', VALUE, Some (number_block ''3''))])
     example_generator
   = Inr ((''\"\"[!3 + 1]'', MEMBER), example_generator)"
  by (simp add: getAdjusted_def text_charAt_def Number_toString_def example_simps)

text \<open>
  C9: when the slot is unconnected \<open>getAdjusted\<close> returns the empty string, whatever the
  delta, the negate flag, the order and the index base of the workspace. So
  \<open>lists_getIndex\<close> and \<open>lists_setIndex\<close> on a block whose slot \<open>AT\<close> is unconnected
  emit a subscript with nothing between the brackets.
\<close>

theorem unconnected_index_slot:
  assumes "getInputTargetBlock block atId = None"
      and "getInputTargetBlock block ''AT'' = None"
      and "valueToCode core block ''VALUE'' MEMBER g = Inr (v, g1)"
      and "valueToCode core block ''LIST'' MEMBER g = Inr (l, g2)"
      and "valueToCode core block ''TO'' ASSIGNMENT g2 = Inr (t, g3)"
  shows "getAdjusted core block atId opt_delta opt_negate opt_order g = Inr ('''', g)
     \<and> lists_getIndex core block g = Inr ((or_else v ''[]'' @ ''[]'', MEMBER), g1)
     \<and> lists_setIndex core block g
         = Inr (or_else l ''[]'' @ ''[] = '' @ or_else t ''null'' @ '';\<newline>'', g3)"
proof -
  have adj: "getAdjusted core block a d n ord s = Inr ('''', s)"
    if "getInputTargetBlock block a = None" for a d n ord s
    using that by (simp add: getAdjusted_def Let_def valueToCode_unconnected bnd_Inr ret_def)
  have "lists_getIndex core block g = Inr ((or_else v ''[]'' @ ''[]'', MEMBER), g1)"
    using assms(3) adj [OF assms(2)] by (simp add: lists_getIndex_def bnd_Inr ret_def)
  moreover have "lists_setIndex core block g
         = Inr (or_else l ''[]'' @ ''[] = '' @ or_else t ''null'' @ '';\<newline>'', g3)"
    using assms(4,5) adj [OF assms(2)] by (simp add: lists_setIndex_def bnd_Inr ret_def)
  ultimately show ?thesis using adj [OF assms(1)] by simp
qed

text \<open>The example is a block that has the slots of both emitters, all of them
  unconnected, in a one-based workspace.\<close>

theorem unconnected_index_slot_witness:
  "getAdjusted example_core
     (example_block ''lists_setIndex'' True []
        [(''VALUE'', VALUE, None), (''LIST'', VALUE, None), (''AT'', VALUE, None),
         (''TO'', VALUE, None)])
     ''AT'' (Some 1) (Some True) (Some ADDITIVE) example_generator = Inr ('''', example_generator)
   \<and> lists_getIndex example_core
     (example_block ''lists_setIndex'' True []
        [(''VALUE'', VALUE, None), (''LIST'', VALUE, None), (''AT'', VALUE, None),
         (''TO'', VALUE, None)])
     example_generator = Inr ((''[][]'', MEMBER), example_generator)
   \<and> lists_setIndex example_core
     (example_block ''lists_setIndex'' True []
        [(''VALUE'', VALUE, None), (''LIST'', VALUE, None), (''AT'', VALUE, None),
         (''TO'', VALUE, None)])
     example_generator = Inr (''[][] = null;\<newline>'', example_generator)"
  using unconnected_index_slot [of
      "example_block ''lists_setIndex'' True []
        [(''VALUE'', VALUE, None), (''LIST'', VALUE, None), (''AT'', VALUE, None),
         (''TO'', VALUE, None)]"
      "''AT''" example_core example_generator "''''" example_generator "''''" example_generator
      "''''" example_generator "Some 1" "Some True" "Some ADDITIVE"]
  by (simp add: example_simps)

section \<open>Unknown values of an enumerated field\<close>

text \<open>
  \<open>math_single\<close> throws on every operator it does not know, whatever is plugged into the
  block and whatever the state of the generator.
\<close>

lemma math_single_unknown_operator:
  assumes "operator \<notin> {''NEG'', ''SIN'', ''COS'', ''TAN'', ''ROOT'', ''LN'', ''LOG10'', ''ABS'',
             ''EXP'', ''POW10''}"
      and "getFieldValue block ''OP'' = Some operator"
  shows "math_single core block g = Inl (Error (''Unknown math operator: '' @ operator))"
  using assms by (simp add: math_single_def String_null_def throw_def)

text \<open>
  \<open>text_trim\<close> and \<open>logic_compare\<close> return code for every mode and operator that is
  no property of their table, own or inherited: the text \<open>undefined\<close> stands where the
  operator should.
\<close>

lemma text_trim_unknown_mode:
  assumes "lookup text_trim_OPERATORS (String_null (getFieldValue block ''MODE'')) = Undefined"
      and "valueToCode core block ''TEXT'' NONE g = Inr (t, g')"
  shows "text_trim core block g = Inr ((or_else t ''\"\"'' @ ''undefined'', FUNCTION_CALL), g')"
  using assms by (simp add: text_trim_def bnd_Inr ret_def String_property_def)

lemma logic_compare_unknown_operator:
  assumes "lookup logic_compare_OPERATORS (String_null (getFieldValue block ''OP'')) = Undefined"
      and "valueToCode core block ''A'' RELATIONAL g = Inr (a, g1)"
      and "valueToCode core block ''B'' RELATIONAL g1 = Inr (b, g2)"
  shows "logic_compare core block g
       = Inr ((or_else a ''0'' @ '' undefined '' @ or_else b ''0'', RELATIONAL), g2)"
  using assms by (simp add: logic_compare_def bnd_Inr ret_def String_property_def)

text \<open>
  C1: an emitter should throw on a value of an enumerated field that it does not recognize,
  and never return code. \<open>text_trim\<close> and \<open>logic_compare\<close> look the value up in a
  table and do not check the result: on the mode \<open>MIDDLE\<close> and on the operator \<open>XOR\<close>
  they return code that contains the text \<open>undefined\<close>.
\<close>

theorem unknown_option_emits_code:
  "text_trim example_core
     (example_block ''text_trim'' False [(''MODE'', ''MIDDLE'')] [(''TEXT'', VALUE, None)])
     example_generator
   = Inr ((''\"\"undefined'', FUNCTION_CALL), example_generator)
   \<and> logic_compare example_core
     (example_block ''logic_compare'' False [(''OP'', ''XOR'')]
        [(''A'', VALUE, None), (''B'', VALUE, None)])
     example_generator
   = Inr ((''0 undefined 0'', RELATIONAL), example_generator)"
  by (simp add: text_trim_def text_trim_OPERATORS_def logic_compare_def
      logic_compare_OPERATORS_def lookup_def Object_prototype_def String_property_def
      example_simps)

section \<open>Missing operands\<close>

text \<open>The claim as stated (C4) has a missing operand of an \<open>AND\<close> block replaced by
  \<open>true\<close> for every combination of connected and unconnected slots. When both operands
  are missing, both are replaced by \<open>false\<close>.\<close>

theorem and_without_operands_is_false:
  "logic_operation example_core
     (example_block ''logic_operation'' False [(''OP'', ''AND'')]
        [(''A'', VALUE, None), (''B'', VALUE, None)])
     example_generator
   = Inr ((''false && false'', LOGICAL_AND), example_generator)"
  by (simp add: logic_operation_def example_simps)

text \<open>
  C4, amended: \<open>a\<close> and \<open>b\<close> are the codes that \<open>valueToCode\<close> resolves the slots
  \<open>A\<close> and \<open>B\<close> to, the empty string for an unconnected slot. \<open>math_arithmetic\<close>
  replaces an empty operand by \<open>0\<close>. \<open>logic_operation\<close> replaces both operands by
  \<open>false\<close> when both are empty, whatever the operator; when one of them is empty it
  replaces it by \<open>true\<close> for \<open>AND\<close> and by \<open>false\<close> for \<open>OR\<close>.
\<close>

theorem missing_operand_defaults:
  assumes "valueToCode core block ''A'' order g = Inr (a, g1)"
      and "valueToCode core block ''B'' order g1 = Inr (b, g2)"
  shows "(getInputTargetBlock block ''A'' = None \<longrightarrow> a = '''')
     \<and> (getInputTargetBlock block ''B'' = None \<longrightarrow> b = '''')
     \<and> (lookup math_arithmetic_OPERATORS (String_null (getFieldValue block ''OP''))
          = Own (operator, order) \<longrightarrow>
        math_arithmetic core block g
          = Inr (((if a = '''' then ''0'' else a) @ operator @ (if b = '''' then ''0'' else b),
                  order), g2))
     \<and> (getFieldValue block ''OP'' = Some ''AND'' \<and> order = LOGICAL_AND \<longrightarrow>
        logic_operation core block g
          = Inr (((if a = '''' then (if b = '''' then ''false'' else ''true'') else a)
                  @ '' && '' @
                  (if b = '''' then (if a = '''' then ''false'' else ''true'') else b),
                  LOGICAL_AND), g2))
     \<and> (getFieldValue block ''OP'' = Some ''OR'' \<and> order = LOGICAL_OR \<longrightarrow>
        logic_operation core block g
          = Inr (((if a = '''' then ''false'' else a) @ '' || '' @
                  (if b = '''' then ''false'' else b),
                  LOGICAL_OR), g2))"
proof -
  have "a = ''''" if "getInputTargetBlock block ''A'' = None"
    using assms(1) that by (simp add: valueToCode_unconnected)
  moreover have "b = ''''" if "getInputTargetBlock block ''B'' = None"
    using assms(2) that by (simp add: valueToCode_unconnected)
  moreover have "math_arithmetic core block g
          = Inr (((if a = '''' then ''0'' else a) @ operator @ (if b = '''' then ''0'' else b),
                  order), g2)"
    if "lookup math_arithmetic_OPERATORS (String_null (getFieldValue block ''OP''))
          = Own (operator, order)"
    using assms that by (simp add: math_arithmetic_def bnd_Inr ret_def or_else_def)
  moreover have "logic_operation core block g
          = Inr (((if a = '''' then (if b = '''' then ''false'' else ''true'') else a)
                  @ '' && '' @
                  (if b = '''' then (if a = '''' then ''false'' else ''true'') else b),
                  LOGICAL_AND), g2)"
    if "getFieldValue block ''OP'' = Some ''AND''" and "order = LOGICAL_AND"
    using assms that by (simp add: logic_operation_def bnd_Inr ret_def Let_def)
  moreover have "logic_operation core block g
          = Inr (((if a = '''' then ''false'' else a) @ '' || '' @
                  (if b = '''' then ''false'' else b),
                  LOGICAL_OR), g2)"
    if "getFieldValue block ''OP'' = Some ''OR''" and "order = LOGICAL_OR"
    using assms that by (simp add: logic_operation_def bnd_Inr ret_def Let_def)
  ultimately show ?thesis
    by blast
qed

theorem missing_operand_defaults_witness:
  "math_arithmetic example_core
     (example_block ''math_arithmetic'' False [(''OP'', ''MINUS'')]
        [(''A'', VALUE, None), (''B'', VALUE, Some (number_block ''2''))])
     example_generator
   = Inr ((''0 - 2'', ADDITIVE), example_generator)
   \<and> logic_operation example_core
     (example_block ''logic_operation'' False [(''OP'', ''AND'')]
        [(''A'', VALUE, None), (''B'', VALUE, Some (boolean_block ''FALSE''))])
     example_generator
   = Inr ((''true && false'', LOGICAL_AND), example_generator)
   \<and> logic_operation example_core
     (example_block ''logic_operation'' False [(''OP'', ''OR'')]
        [(''A'', VALUE, Some (boolean_block ''TRUE'')), (''B'', VALUE, None)])
     example_generator
   = Inr ((''true || false'', LOGICAL_OR), example_generator)"
proof -
  let ?m = "example_block ''math_arithmetic'' False [(''OP'', ''MINUS'')]
        [(''A'', VALUE, None), (''B'', VALUE, Some (number_block ''2''))]"
  let ?a = "example_block ''logic_operation'' False [(''OP'', ''AND'')]
        [(''A'', VALUE, None), (''B'', VALUE, Some (boolean_block ''FALSE''))]"
  let ?o = "example_block ''logic_operation'' False [(''OP'', ''OR'')]
        [(''A'', VALUE, Some (boolean_block ''TRUE'')), (''B'', VALUE, None)]"
  have m: "valueToCode example_core ?m ''A'' ADDITIVE example_generator = Inr ('''', example_generator)"
    "valueToCode example_core ?m ''B'' ADDITIVE example_generator = Inr (''2'', example_generator)"
    "lookup math_arithmetic_OPERATORS (String_null (getFieldValue ?m ''OP'')) = Own ('' - '', ADDITIVE)"
    by (simp_all add: example_simps lookup_def math_arithmetic_OPERATORS_def)
  have a: "valueToCode example_core ?a ''A'' LOGICAL_AND example_generator = Inr ('''', example_generator)"
    "valueToCode example_core ?a ''B'' LOGICAL_AND example_generator = Inr (''false'', example_generator)"
    "getFieldValue ?a ''OP'' = Some ''AND''"
    by (simp_all add: example_simps boolean_block_def)
  have o: "valueToCode example_core ?o ''A'' LOGICAL_OR example_generator = Inr (''true'', example_generator)"
    "valueToCode example_core ?o ''B'' LOGICAL_OR example_generator = Inr ('''', example_generator)"
    "getFieldValue ?o ''OP'' = Some ''OR''"
    by (simp_all add: example_simps boolean_block_def)
  show ?thesis
    using missing_operand_defaults [OF m(1,2), of "'' - ''"]
      missing_operand_defaults [OF a(1,2)] missing_operand_defaults [OF o(1,2)] m(3) a(3) o(3)
    by simp
qed

section \<open>Negation\<close>

lemma no_double_minus_after_minus:
  assumes "\<not> sublist ''--'' s" and "take 1 s \<noteq> ''-''"
  shows "\<not> sublist ''--'' (''-'' @ s)"
  using assms by (cases s) (auto simp: sublist_Cons_right)

lemma no_double_minus_wrapped:
  assumes "\<not> sublist ''--'' s"
  shows "\<not> sublist ''--'' (''- ('' @ s @ '')'')"
proof -
  have "\<not> sublist ''--'' (s @ '')'')"
    using assms
    by (auto simp: sublist_append sublist_Cons_right suffix_def prefix_def Cons_eq_append_conv
        append_eq_Cons_conv)
  then show ?thesis
    by (simp add: sublist_Cons_right)
qed

lemma no_double_minus_or_else:
  "\<not> sublist ''--'' a \<Longrightarrow> \<not> sublist ''--'' (or_else a ''0'')"
  by (auto simp: or_else_def sublist_Cons_right)

text \<open>
  C8: for a \<open>math_single\<close> block with the operator \<open>NEG\<close>, an operand whose text begins
  with a minus sign is wrapped in parentheses before the minus sign is put in front of it.
  The emitted text never begins with two minus signs, it contains two adjacent minus signs
  only if the operand's text already does, and it is returned at the order \<open>UNARY_SIGN\<close>.
\<close>

theorem math_single_NEG:
  assumes "getFieldValue block ''OP'' = Some ''NEG''"
      and "valueToCode core block ''NUM'' UNARY_SIGN g = Inr (a, g')"
  shows "let arg = or_else a ''0'';
             code = (if take 1 arg = ''-'' then ''- ('' @ arg @ '')'' else ''-'' @ arg)
         in math_single core block g = Inr ((code, UNARY_SIGN), g')
            \<and> \<not> prefix ''--'' code
            \<and> (\<not> sublist ''--'' a \<longrightarrow> \<not> sublist ''--'' code)"
proof -
  define arg where "arg = or_else a ''0''"
  define code where "code = (if take 1 arg = ''-'' then ''- ('' @ arg @ '')'' else ''-'' @ arg)"
  have run: "math_single core block g = Inr ((code, UNARY_SIGN), g')"
    using assms by (simp add: math_single_def bnd_Inr ret_def Let_def arg_def code_def)
  have "arg \<noteq> []"
    by (simp add: arg_def or_else_def)
  then have start: "\<not> prefix ''--'' code"
    by (cases arg) (auto simp: code_def)
  have inner: "\<not> sublist ''--'' code" if "\<not> sublist ''--'' a"
  proof -
    have "\<not> sublist ''--'' arg"
      unfolding arg_def using that by (rule no_double_minus_or_else)
    then show ?thesis
      unfolding code_def
      using no_double_minus_after_minus [of arg] no_double_minus_wrapped [of arg]
      by (simp del: append.simps)
  qed
  show ?thesis
    unfolding Let_def arg_def [symmetric] code_def [symmetric]
    using run start inner by blast
qed

theorem math_single_NEG_witness:
  "math_single example_core
     (example_block ''math_single'' False [(''OP'', ''NEG'')]
        [(''NUM'', VALUE, Some (number_block ''-3''))])
     example_generator
   = Inr ((''- (-3)'', UNARY_SIGN), example_generator)
   \<and> \<not> prefix ''--'' ''- (-3)''
   \<and> \<not> sublist ''--'' ''- (-3)''"
proof -
  have op: "getFieldValue
      (example_block ''math_single'' False [(''OP'', ''NEG'')]
        [(''NUM'', VALUE, Some (number_block ''-3''))]) ''OP'' = Some ''NEG''"
    by (simp add: example_simps)
  have num: "valueToCode example_core
      (example_block ''math_single'' False [(''OP'', ''NEG'')]
        [(''NUM'', VALUE, Some (number_block ''-3''))]) ''NUM'' UNARY_SIGN example_generator
      = Inr (''-3'', example_generator)"
    by (simp add: example_simps)
  have no: "\<not> sublist ''--'' ''-3''"
    by (simp add: sublist_Cons_right)
  show ?thesis
    using math_single_NEG [OF op num] no by (simp add: or_else_def Let_def)
qed

section \<open>The two index-of emitters\<close>

text \<open>
  C10: in a one-based workspace \<open>text_indexOf\<close> returns the method call followed by
  \<open>+ 1\<close> with the order \<open>ADDITIVE\<close>, and \<open>lists_indexOf\<close> returns the call of its
  helper function followed by \<open>+ 1\<close> with the order \<open>FUNCTION_CALL\<close>: the two emitters
  report different orders for the same shape of expression. (\<open>f\<close>, \<open>v\<close> and \<open>f'\<close>,
  \<open>v'\<close> are the codes that the slots \<open>FIND\<close> and \<open>VALUE\<close> resolve to for the one
  and the other emitter, \<open>functionName\<close> is the name that \<open>provideFunction_\<close> returns.)
\<close>

theorem indexOf_orders_differ:
  assumes "oneBasedIndex (options block)"
      and "valueToCode core block ''FIND'' NONE g = Inr (f, g1)"
      and "valueToCode core block ''VALUE'' NONE g1 = Inr (v, g2)"
      and "provideFunction core
             (if getFieldValue block ''END'' = Some ''FIRST''
              then ''lists_indexOf'' else ''lists_lastIndexOf'')
             (if getFieldValue block ''END'' = Some ''FIRST''
              then lists_indexOf_helper (FUNCTION_NAME_PLACEHOLDER g)
              else lists_lastIndexOf_helper (FUNCTION_NAME_PLACEHOLDER g)) g
           = Inr (functionName, h0)"
      and "valueToCode core block ''FIND'' NONE h0 = Inr (f', h1)"
      and "valueToCode core block ''VALUE'' NONE h1 = Inr (v', h2)"
  shows "text_indexOf core block g
       = Inr ((or_else v ''\"\"'' @ ''.''
               @ (if getFieldValue block ''END'' = Some ''FIRST'' then ''indexOf'' else ''lastIndexOf'')
               @ ''('' @ or_else f ''\"\"'' @ '')'' @ '' + 1'', ADDITIVE), g2)
     \<and> lists_indexOf core block g
       = Inr ((functionName @ ''('' @ or_else v' ''[]'' @ '', '' @ or_else f' ''null'' @ '')''
               @ '' + 1'', FUNCTION_CALL), h2)
     \<and> ADDITIVE \<noteq> FUNCTION_CALL"
proof -
  have "text_indexOf core block g
       = Inr ((or_else v ''\"\"'' @ ''.''
               @ (if getFieldValue block ''END'' = Some ''FIRST'' then ''indexOf'' else ''lastIndexOf'')
               @ ''('' @ or_else f ''\"\"'' @ '')'' @ '' + 1'', ADDITIVE), g2)"
    using assms(1-3) by (simp add: text_indexOf_def Let_def bnd_Inr ret_def)
  moreover have "read FUNCTION_NAME_PLACEHOLDER g = Inr (FUNCTION_NAME_PLACEHOLDER g, g)"
    by (simp add: read_def)
  then have "lists_indexOf core block g
       = Inr ((functionName @ ''('' @ or_else v' ''[]'' @ '', '' @ or_else f' ''null'' @ '')''
               @ '' + 1'', FUNCTION_CALL), h2)"
    using assms(1,4-6) by (simp add: lists_indexOf_def Let_def bnd_Inr ret_def)
  ultimately show ?thesis
    by (simp add: Order_defs)
qed

theorem indexOf_orders_differ_witness:
  "text_indexOf example_core
     (example_block ''text_indexOf'' True [(''END'', ''FIRST'')]
        [(''VALUE'', VALUE, None), (''FIND'', VALUE, Some (number_block ''7''))])
     example_generator
   = Inr ((''\"\".indexOf(7) + 1'', ADDITIVE), example_generator)
   \<and> lists_indexOf example_core
     (example_block ''text_indexOf'' True [(''END'', ''FIRST'')]
        [(''VALUE'', VALUE, None), (''FIND'', VALUE, Some (number_block ''7''))])
     example_generator
   = Inr ((''lists_indexOf([], 7) + 1'', FUNCTION_CALL),
          example_generator
            \<lparr>functionNames := [(''lists_indexOf'', ''lists_indexOf'')],
             definitions := [(''lists_indexOf'',
               join (''func lists_indexOf(list, item) {'' # tl (lists_indexOf_helper '''')) ''\<newline>'')]\<rparr>)
   \<and> ADDITIVE \<noteq> FUNCTION_CALL"
proof -
  let ?b = "example_block ''text_indexOf'' True [(''END'', ''FIRST'')]
        [(''VALUE'', VALUE, None), (''FIND'', VALUE, Some (number_block ''7''))]"
  let ?h = "example_generator
            \<lparr>functionNames := [(''lists_indexOf'', ''lists_indexOf'')],
             definitions := [(''lists_indexOf'',
               join (''func lists_indexOf(list, item) {'' # tl (lists_indexOf_helper '''')) ''\<newline>'')]\<rparr>"
  have 1: "oneBasedIndex (options ?b)"
    by (simp add: example_block_def)
  have 2: "valueToCode example_core ?b ''FIND'' NONE s = Inr (''7'', s)"
    "valueToCode example_core ?b ''VALUE'' NONE s = Inr ('''', s)" for s
    by (simp_all add: example_simps)
  have 3: "provideFunction example_core
             (if getFieldValue ?b ''END'' = Some ''FIRST''
              then ''lists_indexOf'' else ''lists_lastIndexOf'')
             (if getFieldValue ?b ''END'' = Some ''FIRST''
              then lists_indexOf_helper (FUNCTION_NAME_PLACEHOLDER example_generator)
              else lists_lastIndexOf_helper (FUNCTION_NAME_PLACEHOLDER example_generator))
             example_generator
           = Inr (''lists_indexOf'', ?h)"
    by (simp add: example_provideFunction_def example_render_def lists_indexOf_helper_def
        example_simps)
  show ?thesis
    using indexOf_orders_differ [OF 1 2 3 2]
    by (simp add: or_else_def getFieldValue_def example_block_def)
qed

section \<open>Procedure definitions\<close>

text \<open>
  The body of the function that \<open>procedures_defreturn\<close> emits is the statement code of
  the stack, the injected statement prefix and suffix \<open>xfix1\<close> (empty unless the generator
  has one), and a synthesized return: \<open>return <value>;\<close> when the slot \<open>RETURN\<close>
  resolves to a value and \<open>return;\<close> otherwise, whether or not the stack is empty. The
  function text passes through \<open>scrub\<close> and is stored in the Definitions Table under the
  key \<open>%\<close> followed by the function's name, which is neither the key \<open>variables\<close> nor
  the key of a helper function; the emitter returns \<open>null\<close>, so that nothing is appended
  to the main code.
\<close>

lemma procedures_defreturn_body:
  assumes "getProcedureName core (getFieldValue block ''NAME'') g = Inr (funcName, g1)"
      and "statementToCode core block ''STACK'' g1 = Inr (branch, g2)"
      and "valueToCode core block ''RETURN'' NONE g2 = Inr (r, g3)"
      and "getVariableNames core (getVars block) g3 = Inr (args, g4)"
      and "scrub core block
             (''func '' @ funcName @ ''('' @ join args '', '' @ '') {\<newline>'' @ branch
              @ xfix1 core block g1
              @ (if r = '''' then ''return;\<newline>'' else ''return '' @ r @ '';\<newline>'') @ ''}'')
             False g4 = Inr (code, g5)"
  shows "procedures_defreturn core block g
           = Inr ((), g5\<lparr>definitions := assign (definitions g5) (''%'' @ funcName) code\<rparr>)
       \<and> map_of (assign (definitions g5) (''%'' @ funcName) code) (''%'' @ funcName) = Some code
       \<and> ''%'' @ funcName \<notin> set (''variables'' # helper_keys)"
proof -
  have x: "read (xfix1 core block) g1 = Inr (xfix1 core block g1, g1)"
    by (simp add: read_def)
  have "procedures_defreturn core block g
           = Inr ((), g5\<lparr>definitions := assign (definitions g5) (''%'' @ funcName) code\<rparr>)"
    using assms x
    by (cases "r = ''''"; cases "branch = ''''")
      (simp_all add: procedures_defreturn_def bnd_Inr or_else_def Let_def modify_def ret_def)
  then show ?thesis
    by (simp add: map_of_assign helper_keys_def)
qed

text \<open>
  The body of the function that \<open>procedures_defnoreturn\<close> emits is the statement code of
  the stack and \<open>xfix1\<close>, and nothing else. The function text is stored like that of
  \<open>procedures_defreturn\<close>.
\<close>

lemma procedures_defnoreturn_body:
  assumes "getProcedureName core (getFieldValue block ''NAME'') g = Inr (funcName, g1)"
      and "statementToCode core block ''STACK'' g1 = Inr (branch, g2)"
      and "getVariableNames core (getVars block) g2 = Inr (args, g3)"
      and "scrub core block
             (''func '' @ funcName @ ''('' @ join args '', '' @ '') {\<newline>'' @ branch
              @ xfix1 core block g1 @ ''}\<newline>'')
             False g3 = Inr (code, g4)"
  shows "procedures_defnoreturn core block g
           = Inr ((), g4\<lparr>definitions := assign (definitions g4) (''%'' @ funcName) code\<rparr>)
       \<and> map_of (assign (definitions g4) (''%'' @ funcName) code) (''%'' @ funcName) = Some code
       \<and> ''%'' @ funcName \<notin> set (''variables'' # helper_keys)"
proof -
  have x: "read (xfix1 core block) g1 = Inr (xfix1 core block g1, g1)"
    by (simp add: read_def)
  have "procedures_defnoreturn core block g
           = Inr ((), g4\<lparr>definitions := assign (definitions g4) (''%'' @ funcName) code\<rparr>)"
    using assms x
    by (simp add: procedures_defnoreturn_def bnd_Inr modify_def ret_def)
  then show ?thesis
    by (simp add: map_of_assign helper_keys_def)
qed

text \<open>The four combinations of a stack and a return value in \<open>procedures_defreturn\<close>, for
  the procedure \<open>f\<close> with the parameters \<open>x\<close> and \<open>y\<close>.\<close>

lemma procedures_defreturn_four_ways:
  "procedures_defreturn example_core
     (defreturn_block (Some break_block) (Some (number_block ''1''))) example_generator
   = Inr ((), example_generator
        \<lparr>definitions := [(''%f'', ''func f(x, y) {\<newline>  break;\<newline>return 1;\<newline>}'')]\<rparr>)
   \<and> procedures_defreturn example_core
     (defreturn_block None (Some (number_block ''1''))) example_generator
   = Inr ((), example_generator
        \<lparr>definitions := [(''%f'', ''func f(x, y) {\<newline>return 1;\<newline>}'')]\<rparr>)
   \<and> procedures_defreturn example_core
     (defreturn_block (Some break_block) None) example_generator
   = Inr ((), example_generator
        \<lparr>definitions := [(''%f'', ''func f(x, y) {\<newline>  break;\<newline>return;\<newline>}'')]\<rparr>)
   \<and> procedures_defreturn example_core
     (defreturn_block None None) example_generator
   = Inr ((), example_generator
        \<lparr>definitions := [(''%f'', ''func f(x, y) {\<newline>return;\<newline>}'')]\<rparr>)"
proof -
  have 1: "getProcedureName example_core (getFieldValue (defreturn_block s r) ''NAME'')
      example_generator = Inr (''f'', example_generator)" for s r
    by (simp add: defreturn_block_def example_simps)
  have 2: "statementToCode example_core (defreturn_block (Some break_block) r) ''STACK''
      example_generator = Inr (''  break;\<newline>'', example_generator)"
    "statementToCode example_core (defreturn_block None r) ''STACK''
      example_generator = Inr ('''', example_generator)" for r
    by (simp_all add: defreturn_block_def statementToCode_def scrub_def
        controls_flow_statements_def commentOf_def example_prefixLines_def Let_def
        break_block_def example_simps)
  have 3: "valueToCode example_core (defreturn_block s (Some (number_block ''1''))) ''RETURN'' NONE
      example_generator = Inr (''1'', example_generator)"
    "valueToCode example_core (defreturn_block s None) ''RETURN'' NONE
      example_generator = Inr ('''', example_generator)" for s
    by (simp_all add: defreturn_block_def example_simps)
  have 4: "getVariableNames example_core (getVars (defreturn_block s r)) example_generator
      = Inr ([''x'', ''y''], example_generator)" for s r
    by (simp add: defreturn_block_def example_simps)
  have x: "xfix1 example_core (defreturn_block s r) example_generator = ''''" for s r
    by (simp add: xfix1_def example_simps)
  have s: "scrub example_core (defreturn_block s (Some (number_block ''1''))) code False
        example_generator = Inr (code, example_generator)"
    "scrub example_core (defreturn_block s None) code False
        example_generator = Inr (code, example_generator)" for s code
    by (rule scrub_without_comments; simp add: defreturn_block_def number_block_def)+
  show ?thesis
    using procedures_defreturn_body [OF 1 2(1) 3(1) 4 s(1), unfolded x]
      procedures_defreturn_body [OF 1 2(2) 3(1) 4 s(1), unfolded x]
      procedures_defreturn_body [OF 1 2(1) 3(2) 4 s(2), unfolded x]
      procedures_defreturn_body [OF 1 2(2) 3(2) 4 s(2), unfolded x]
    by (simp add: example_generator_def)
qed

text \<open>
  C5: every procedure definition should end in a synthesized return, \<open>return;\<close> when the
  procedure has statements and no return value. \<open>procedures_defreturn\<close> does so, and
  \<open>procedures_defnoreturn\<close> does not: for the procedure \<open>f\<close> with the parameters
  \<open>x\<close> and \<open>y\<close> whose stack is one \<open>break\<close> statement, it stores a definition
  without a return statement, where \<open>procedures_defreturn\<close> on the same stack and with
  no return value stores one that ends in \<open>return;\<close>.
\<close>

theorem defnoreturn_has_no_return:
  "procedures_defnoreturn example_core (defnoreturn_block (Some break_block)) example_generator
   = Inr ((), example_generator
        \<lparr>definitions := [(''%f'', ''func f(x, y) {\<newline>  break;\<newline>}\<newline>'')]\<rparr>)
   \<and> \<not> sublist ''return'' ''func f(x, y) {\<newline>  break;\<newline>}\<newline>''
   \<and> procedures_defreturn example_core (defreturn_block (Some break_block) None) example_generator
   = Inr ((), example_generator
        \<lparr>definitions := [(''%f'', ''func f(x, y) {\<newline>  break;\<newline>return;\<newline>}'')]\<rparr>)"
proof -
  let ?n = "defnoreturn_block (Some break_block)"
  let ?r = "defreturn_block (Some break_block) None"
  have 1: "getProcedureName example_core (getFieldValue ?n ''NAME'')
      example_generator = Inr (''f'', example_generator)"
    "getProcedureName example_core (getFieldValue ?r ''NAME'')
      example_generator = Inr (''f'', example_generator)"
    by (simp_all add: defnoreturn_block_def defreturn_block_def example_simps)
  have 2: "statementToCode example_core ?n ''STACK''
      example_generator = Inr (''  break;\<newline>'', example_generator)"
    "statementToCode example_core ?r ''STACK''
      example_generator = Inr (''  break;\<newline>'', example_generator)"
    by (simp_all add: defnoreturn_block_def defreturn_block_def statementToCode_def scrub_def
        controls_flow_statements_def commentOf_def example_prefixLines_def Let_def
        break_block_def example_simps)
  have 3: "valueToCode example_core ?r ''RETURN'' NONE
      example_generator = Inr ('''', example_generator)"
    by (simp add: defreturn_block_def example_simps)
  have 4: "getVariableNames example_core (getVars ?n) example_generator
      = Inr ([''x'', ''y''], example_generator)"
    "getVariableNames example_core (getVars ?r) example_generator
      = Inr ([''x'', ''y''], example_generator)"
    by (simp_all add: defnoreturn_block_def defreturn_block_def example_simps)
  have x: "xfix1 example_core ?n example_generator = ''''"
    "xfix1 example_core ?r example_generator = ''''"
    by (simp_all add: xfix1_def example_simps)
  have s: "scrub example_core ?n code False example_generator = Inr (code, example_generator)"
    "scrub example_core ?r code False example_generator = Inr (code, example_generator)"
    for code
    by (rule scrub_without_comments; simp add: defnoreturn_block_def defreturn_block_def)+
  have "\<not> sublist ''return'' ''func f(x, y) {\<newline>  break;\<newline>}\<newline>''"
    by (simp add: sublist_Cons_right)
  then show ?thesis
    using procedures_defnoreturn_body [OF 1(1) 2(1) 4(1) s(1), unfolded x]
      procedures_defreturn_body [OF 1(2) 2(2) 3 4(2) s(2), unfolded x]
    by (simp add: example_generator_def)
qed

end
